theory Spec2Isabelle
  imports Complex_Main "HOL-Library.Sublist"
begin

section \<open>Qt geometry used by the camera GUI\<close>

text \<open>
  The program stores every rectangle as a Qt5 \<^verbatim>\<open>QRect\<close> and every pointer position as a
  \<^verbatim>\<open>QPoint\<close>. A \<^verbatim>\<open>QRect\<close> keeps its two corners inclusively, so a rectangle built from
  \<^verbatim>\<open>(x, y, w, h)\<close> has right edge \<^verbatim>\<open>x + w - 1\<close>. The functions below follow the Qt5
  implementation of the methods the program calls; \<open>qrect_bool\<close> and \<open>qpoint_bool\<close> are the
  truth values PyQt5 gives the two classes (\<^verbatim>\<open>isValid()\<close> and \<^verbatim>\<open>not isNull()\<close>).
\<close>

datatype qpoint = QPoint (px: int) (py: int)

datatype qrect = QRectC (x1: int) (y1: int) (x2: int) (y2: int)

definition QRect :: "int \<Rightarrow> int \<Rightarrow> int \<Rightarrow> int \<Rightarrow> qrect" where
  "QRect x y w h = QRectC x y (x + w - 1) (y + h - 1)"

definition QRectPP :: "qpoint \<Rightarrow> qpoint \<Rightarrow> qrect" where
  "QRectPP p q = QRectC (px p) (py p) (px q) (py q)"

definition left :: "qrect \<Rightarrow> int" where "left r = x1 r"
definition top :: "qrect \<Rightarrow> int" where "top r = y1 r"
definition right :: "qrect \<Rightarrow> int" where "right r = x2 r"
definition bottom :: "qrect \<Rightarrow> int" where "bottom r = y2 r"

definition width :: "qrect \<Rightarrow> int" where "width r = x2 r - x1 r + 1"
definition height :: "qrect \<Rightarrow> int" where "height r = y2 r - y1 r + 1"

definition topLeft :: "qrect \<Rightarrow> qpoint" where
  "topLeft r = QPoint (x1 r) (y1 r)"

definition isValid :: "qrect \<Rightarrow> bool" where
  "isValid r \<longleftrightarrow> x1 r \<le> x2 r \<and> y1 r \<le> y2 r"

definition qrect_bool :: "qrect \<Rightarrow> bool" where
  "qrect_bool r = isValid r"

definition qpoint_bool :: "qpoint \<Rightarrow> bool" where
  "qpoint_bool p \<longleftrightarrow> \<not> (px p = 0 \<and> py p = 0)"

definition qpoint_sub :: "qpoint \<Rightarrow> qpoint \<Rightarrow> qpoint" where
  "qpoint_sub p q = QPoint (px p - px q) (py p - py q)"

definition normalized :: "qrect \<Rightarrow> qrect" where
  "normalized r =
     (let (a1, a2) = (if x2 r < x1 r - 1 then (x2 r, x1 r) else (x1 r, x2 r));
          (b1, b2) = (if y2 r < y1 r - 1 then (y2 r, y1 r) else (y1 r, y2 r))
      in QRectC a1 b1 a2 b2)"

definition contains :: "qrect \<Rightarrow> qpoint \<Rightarrow> bool" where
  "contains r p =
     (let (l, rr) = (if x2 r < x1 r - 1 then (x2 r, x1 r) else (x1 r, x2 r));
          (t, b) = (if y2 r < y1 r - 1 then (y2 r, y1 r) else (y1 r, y2 r))
      in if px p < l \<or> px p > rr then False
         else if py p < t \<or> py p > b then False
         else True)"

definition moveTopLeft :: "qrect \<Rightarrow> qpoint \<Rightarrow> qrect" where
  "moveTopLeft r p =
     QRectC (px p) (py p) (x2 r + (px p - x1 r)) (y2 r + (py p - y1 r))"

definition moveTo :: "qrect \<Rightarrow> int \<Rightarrow> int \<Rightarrow> qrect" where
  "moveTo r ax ay = QRectC ax ay (x2 r + (ax - x1 r)) (y2 r + (ay - y1 r))"


section \<open>Frames, exceptions and the state of the main window\<close>

text \<open>
  A camera frame is a numpy array. After normalisation the program works on
  height \<times> width \<times> 3 arrays, modelled as rows of pixels of channel values. What
  \<^verbatim>\<open>capture_array\<close> hands back may also be two-dimensional (grey levels) or of another
  rank; \<open>ArrayN n\<close> is such an array with \<open>n\<close> elements.
\<close>

type_synonym frame = "nat list list list"

datatype ndarray = Array2 "nat list list" | Array3 "nat list list list" | ArrayN nat

text \<open>
  Exceptions are values. \<open>exn_str\<close> is Python's \<^verbatim>\<open>str(e)\<close>; for
  \<^verbatim>\<open>subprocess.CalledProcessError\<close> it is the text the standard library builds from the
  command list and the exit status. \<open>py_repr\<close> quotes a string the way \<^verbatim>\<open>repr\<close> does for
  text without quotes, backslashes or control characters.
\<close>

datatype exn =
    TypeError string
  | AttributeError string
  | CameraError string
  | FileNotFoundError string
  | CalledProcessError "string list" nat

fun digit_char :: "nat \<Rightarrow> char" where
  "digit_char n = char_of (48 + n)"

fun str_nat :: "nat \<Rightarrow> string" where
  "str_nat n = (if n < 10 then [digit_char n] else str_nat (n div 10) @ [digit_char (n mod 10)])"

definition py_repr :: "string \<Rightarrow> string" where
  "py_repr s = [CHR 0x27] @ s @ [CHR 0x27]"

fun join_comma :: "string list \<Rightarrow> string" where
  "join_comma [] = []"
| "join_comma [s] = s"
| "join_comma (s # t # ss) = s @ '', '' @ join_comma (t # ss)"

definition py_repr_list :: "string list \<Rightarrow> string" where
  "py_repr_list ss = ''['' @ join_comma (map py_repr ss) @ '']''"

fun exn_str :: "exn \<Rightarrow> string" where
  "exn_str (TypeError m) = m"
| "exn_str (AttributeError m) = m"
| "exn_str (CameraError m) = m"
| "exn_str (FileNotFoundError f) =
     ''[Errno 2] No such file or directory: '' @ py_repr f"
| "exn_str (CalledProcessError cmd rc) =
     ''Command '' @ py_repr (py_repr_list cmd) @ '' returned non-zero exit status ''
       @ str_nat rc @ ''.''"

datatype mouse_button = NoButton | LeftButton | RightButton | MidButton

record mouse_event =
  pos :: qpoint
  button :: mouse_button

datatype af_mode = AfAuto | AfContinuous | AfManual

datatype control = AfMode af_mode | AfTrigger | LensPosition real

text \<open>The calls the program makes on the \<^verbatim>\<open>Picamera2\<close> object, in the order made.\<close>

datatype cam_call =
    Picamera2
  | Stop
  | Close
  | ConfigurePreview "int \<times> int"
  | ConfigureStill "int \<times> int"
  | ConfigureRaw "int \<times> int"
  | ConfigureVideo
  | Start
  | SetControls control
  | CaptureArray
  | CaptureFile string string
  | StartRecording string
  | StopRecording

datatype label_content = LabelText string | LabelPixmap frame

datatype lens_label = LensInitial | LensInfinity | LensMm real

text \<open>
  The fields of \<^verbatim>\<open>CameraGUI\<close> that the modelled methods read or write. A widget is
  represented by the one property the program uses: a check box by its checked state, a
  button by its enabled state, a label by its content, the status bar and the standard
  output by the messages written so far (latest last), the file system by the set of
  existing paths. \<open>picam\<close> tells whether \<^verbatim>\<open>self.picam\<close> is set; \<open>preview_timer\<close> whether
  the preview timer is active.
\<close>

record camera_gui =
  picam :: bool
  cam_calls :: "cam_call list"
  preview_timer :: bool
  is_preview_paused :: bool
  current_frame :: "frame option"
  is_recording :: bool
  temp_drawn_rect :: "qrect option"
  applied_crop_rect :: "qrect option"
  mag_rect :: qrect
  is_mag_dragging :: bool
  drag_offset :: "qpoint option"
  rotation :: int
  is_dragging :: bool
  drag_start :: "qpoint option"
  current_preview_resolution :: "int \<times> int"
  temp_video_path :: "string option"
  magnifier_toggle :: bool
  crop_apply_btn :: bool
  start_record_btn :: bool
  stop_record_btn :: bool
  capture_res_combo :: "int \<times> int"
  capture_format_combo :: string
  lens_value_label :: lens_label
  preview_label :: label_content
  mag_label :: label_content
  pause_btn :: string
  status_bar :: "string list"
  stdout :: "string list"
  files :: "string set"

datatype outcome = Done camera_gui | Raised exn camera_gui

text \<open>The size of the preview label is fixed by \<^verbatim>\<open>setFixedSize(800, 600)\<close>.\<close>

definition label_w :: int where "label_w = 800"
definition label_h :: int where "label_h = 600"

section \<open>Region-of-interest input model\<close>

definition center_magnifier_box :: "camera_gui \<Rightarrow> camera_gui" where
  "center_magnifier_box s =
     (let preview_width = label_w; preview_height = label_h;
          mag_width = width (mag_rect s); mag_height = height (mag_rect s)
      in s\<lparr>mag_rect := moveTo (mag_rect s)
              ((preview_width - mag_width) div 2) ((preview_height - mag_height) div 2)\<rparr>)"

definition toggle_magnifier :: "bool \<Rightarrow> camera_gui \<Rightarrow> camera_gui" where
  "toggle_magnifier checked s =
     (let s1 = s\<lparr>magnifier_toggle := checked\<rparr>
      in if checked then center_magnifier_box s1 else s1)"

definition preview_mouse_press :: "mouse_event \<Rightarrow> camera_gui \<Rightarrow> camera_gui" where
  "preview_mouse_press event s =
     (if magnifier_toggle s \<and> contains (mag_rect s) (pos event) then
        s\<lparr>is_mag_dragging := True,
          drag_offset := Some (qpoint_sub (pos event) (topLeft (mag_rect s)))\<rparr>
      else if button event = LeftButton then
        s\<lparr>drag_start := Some (pos event),
          is_dragging := True,
          temp_drawn_rect := Some (QRectPP (pos event) (pos event)),
          crop_apply_btn := False\<rparr>
      else s)"

text \<open>
  \<^verbatim>\<open>event.pos() - self.drag_offset\<close> raises \<^verbatim>\<open>TypeError\<close> while \<^verbatim>\<open>drag_offset\<close> is still
  \<^verbatim>\<open>None\<close>. In the crop branch \<^verbatim>\<open>self.drag_start\<close> is tested for truth, so a drag that
  started at the origin is not followed.
\<close>

definition preview_mouse_move :: "mouse_event \<Rightarrow> camera_gui \<Rightarrow> outcome" where
  "preview_mouse_move event s =
     (if is_mag_dragging s then
        (case drag_offset s of
           None \<Rightarrow> Raised (TypeError ''unsupported operand type(s) for -'') s
         | Some off \<Rightarrow>
             Done (s\<lparr>mag_rect := moveTopLeft (mag_rect s) (qpoint_sub (pos event) off)\<rparr>))
      else
        (case drag_start s of
           None \<Rightarrow> Done s
         | Some start \<Rightarrow>
             if is_dragging s \<and> qpoint_bool start then
               (let r = normalized (QRectPP start (pos event));
                    s1 = s\<lparr>temp_drawn_rect := Some r\<rparr>
                in if width r > 10 \<and> height r > 10
                   then Done (s1\<lparr>crop_apply_btn := True\<rparr>)
                   else Done (s1\<lparr>crop_apply_btn := False\<rparr>))
             else Done s))"

definition preview_mouse_release :: "mouse_event \<Rightarrow> camera_gui \<Rightarrow> camera_gui" where
  "preview_mouse_release event s =
     (let s1 = s\<lparr>is_mag_dragging := False\<rparr>
      in if is_dragging s1 then
           (let s2 = s1\<lparr>is_dragging := False\<rparr>
            in case temp_drawn_rect s2 of
                 None \<Rightarrow> s2
               | Some r \<Rightarrow>
                   if qrect_bool r \<and> (width r < 10 \<or> height r < 10)
                   then s2\<lparr>temp_drawn_rect := None, crop_apply_btn := False\<rparr>
                   else s2)
         else s1)"

definition apply_crop_from_rect :: "camera_gui \<Rightarrow> camera_gui" where
  "apply_crop_from_rect s =
     (case temp_drawn_rect s of
        None \<Rightarrow> s
      | Some r \<Rightarrow>
          if \<not> qrect_bool r then s
          else s\<lparr>applied_crop_rect := temp_drawn_rect s,
                 temp_drawn_rect := None,
                 status_bar := status_bar s @ [''Cropping applied'']\<rparr>)"

definition clear_crop :: "camera_gui \<Rightarrow> camera_gui" where
  "clear_crop s =
     s\<lparr>applied_crop_rect := None,
       temp_drawn_rect := None,
       crop_apply_btn := False,
       status_bar := status_bar s @ [''Crop cleared. Full view restored.'']\<rparr>"

text \<open>
  The events of the input model. \<^verbatim>\<open>apply_crop_from_rect\<close> and \<^verbatim>\<open>clear_crop\<close> are
  connected to the \<^verbatim>\<open>clicked\<close> signal of their buttons and to nothing else, and a
  disabled Qt button emits no \<^verbatim>\<open>clicked\<close>: a click on Apply reaches the method only
  while \<^verbatim>\<open>crop_apply_btn\<close> is enabled. An exception that leaves a handler ends the run.
\<close>

datatype gui_event =
    Press mouse_event
  | Move mouse_event
  | Release mouse_event
  | ClickApply
  | ClickClear
  | ToggleMagnifier bool

fun handle_event :: "gui_event \<Rightarrow> camera_gui \<Rightarrow> outcome" where
  "handle_event (Press e) s = Done (preview_mouse_press e s)"
| "handle_event (Move e) s = preview_mouse_move e s"
| "handle_event (Release e) s = Done (preview_mouse_release e s)"
| "handle_event ClickApply s =
     Done (if crop_apply_btn s then apply_crop_from_rect s else s)"
| "handle_event ClickClear s = Done (clear_crop s)"
| "handle_event (ToggleMagnifier c) s = Done (toggle_magnifier c s)"

fun run_events :: "gui_event list \<Rightarrow> camera_gui \<Rightarrow> outcome" where
  "run_events [] s = Done s"
| "run_events (e # es) s =
     (case handle_event e s of
        Done s' \<Rightarrow> run_events es s'
      | Raised x s' \<Rightarrow> Raised x s')"


section \<open>The camera driver, the dialogs and the transcoder as the program sees them\<close>

text \<open>
  What lies outside the program is a parameter of the model. \<open>libs_available\<close> tells
  whether the import of \<^verbatim>\<open>picamera2\<close> and \<^verbatim>\<open>libcamera.controls\<close> succeeded (otherwise
  \<^verbatim>\<open>Picamera2\<close> and \<^verbatim>\<open>controls\<close> are both \<^verbatim>\<open>None\<close>). \<open>cam_raises n\<close> is the exception of
  the \<open>n\<close>-th call made on the camera since the program started, if that call raises;
  \<open>cam_frame n\<close> is the array the \<open>n\<close>-th call returns when it is \<^verbatim>\<open>capture_array\<close>
  (\<open>None\<close> for Python's \<^verbatim>\<open>None\<close>). \<open>save_dialog\<close> is the path the save dialog returns, empty
  when the user cancels. \<open>ffmpeg\<close> is what running the transcoder does: it cannot be
  started, or it exits with a status, having left an output file behind or not (on exit
  status 0 the output file exists).
\<close>

datatype proc_result = ProcNotFound | ProcExit nat bool

record world =
  libs_available :: bool
  cam_raises :: "nat \<Rightarrow> exn option"
  cam_frame :: "nat \<Rightarrow> ndarray option"
  save_dialog :: string
  ffmpeg :: proc_result

text \<open>
  The Pillow operations of the preview are parameters as well: resampling is
  floating-point work of the library, and only what the program feeds it matters here.
\<close>

datatype colour = Red | Blue

record imaging =
  resize_lanczos :: "frame \<Rightarrow> int \<times> int \<Rightarrow> frame"
  resize_nearest :: "frame \<Rightarrow> int \<times> int \<Rightarrow> frame"
  draw_rectangle :: "frame \<Rightarrow> int \<times> int \<times> int \<times> int \<Rightarrow> colour \<Rightarrow> frame"

definition cam :: "world \<Rightarrow> cam_call \<Rightarrow> camera_gui \<Rightarrow> outcome" where
  "cam w c s =
     (let s1 = s\<lparr>cam_calls := cam_calls s @ [c]\<rparr>
      in case cam_raises w (length (cam_calls s)) of
           None \<Rightarrow> Done s1
         | Some x \<Rightarrow> Raised x s1)"

definition stmt :: "(camera_gui \<Rightarrow> camera_gui) \<Rightarrow> camera_gui \<Rightarrow> outcome" where
  "stmt f s = Done (f s)"

fun steps :: "(camera_gui \<Rightarrow> outcome) list \<Rightarrow> camera_gui \<Rightarrow> outcome" where
  "steps [] s = Done s"
| "steps (f # fs) s =
     (case f s of
        Done s' \<Rightarrow> steps fs s'
      | Raised x s' \<Rightarrow> Raised x s')"

definition state_of :: "outcome \<Rightarrow> camera_gui" where
  "state_of r = (case r of Done s \<Rightarrow> s | Raised x s \<Rightarrow> s)"

definition showMessage :: "string \<Rightarrow> camera_gui \<Rightarrow> camera_gui" where
  "showMessage m s = s\<lparr>status_bar := status_bar s @ [m]\<rparr>"

definition print :: "string \<Rightarrow> camera_gui \<Rightarrow> camera_gui" where
  "print m s = s\<lparr>stdout := stdout s @ [m]\<rparr>"

definition str_int :: "int \<Rightarrow> string" where
  "str_int i = (if i < 0 then ''-'' @ str_nat (nat (- i)) else str_nat (nat i))"

definition upper_char :: "char \<Rightarrow> char" where
  "upper_char c =
     (if (97::nat) \<le> of_char c \<and> of_char c \<le> (122::nat)
      then char_of (of_char c - (32::nat)) else c)"

definition upper :: "string \<Rightarrow> string" where
  "upper s = map upper_char s"

definition basename :: "string \<Rightarrow> string" where
  "basename f = rev (takeWhile (\<lambda>c. c \<noteq> CHR ''/'') (rev f))"

text \<open>
  \<^verbatim>\<open>os.remove\<close> and \<^verbatim>\<open>os.rename\<close> on the set of existing paths; both raise when the
  source path does not exist.
\<close>

definition os_remove :: "string \<Rightarrow> camera_gui \<Rightarrow> outcome" where
  "os_remove f s =
     (if f \<in> files s then Done (s\<lparr>files := files s - {f}\<rparr>)
      else Raised (FileNotFoundError f) s)"

definition os_rename :: "string \<Rightarrow> string \<Rightarrow> camera_gui \<Rightarrow> outcome" where
  "os_rename src dst s =
     (if src \<in> files s then Done (s\<lparr>files := insert dst (files s - {src})\<rparr>)
      else Raised (FileNotFoundError src) s)"

text \<open>
  \<^verbatim>\<open>subprocess.run(cmd, check=True)\<close> for the transcoder, whose last argument is the
  output path.
\<close>

definition subprocess_run :: "world \<Rightarrow> string list \<Rightarrow> string \<Rightarrow> camera_gui \<Rightarrow> outcome" where
  "subprocess_run w cmd out s =
     (case ffmpeg w of
        ProcNotFound \<Rightarrow> Raised (FileNotFoundError ''ffmpeg'') s
      | ProcExit rc left_output \<Rightarrow>
          if rc = 0 then Done (s\<lparr>files := insert out (files s)\<rparr>)
          else Raised (CalledProcessError cmd rc)
                 (if left_output then s\<lparr>files := insert out (files s)\<rparr> else s))"

section \<open>Capture session manager\<close>

definition init_camera :: "world \<Rightarrow> camera_gui \<Rightarrow> bool \<times> camera_gui" where
  "init_camera w s =
     (if \<not> libs_available w then (False, s)
      else
        (let s1 = (if picam s then state_of (steps [cam w Stop, cam w Close] s) else s);
             res = current_preview_resolution s1
         in case steps
                  [cam w Picamera2,
                   stmt (\<lambda>s. s\<lparr>picam := True\<rparr>),
                   cam w (ConfigurePreview res),
                   cam w Start,
                   cam w (SetControls (AfMode AfContinuous)),
                   stmt (showMessage (''Camera initialized with preview stream at ''
                           @ str_int (fst res) @ ''x'' @ str_int (snd res)))] s1 of
              Done s2 \<Rightarrow> (True, s2)
            | Raised e s2 \<Rightarrow>
                (False,
                 showMessage ''Camera initialization failed''
                   (print (''Failed to initialize camera: '' @ exn_str e) s2))))"

definition start_preview :: "camera_gui \<Rightarrow> camera_gui" where
  "start_preview s = s\<lparr>preview_timer := True\<rparr>"

definition capture_file :: "world \<Rightarrow> string \<Rightarrow> string \<Rightarrow> camera_gui \<Rightarrow> outcome" where
  "capture_file w path fmt s =
     (case cam w (CaptureFile path fmt) s of
        Done s1 \<Rightarrow> Done (s1\<lparr>files := insert path (files s1)\<rparr>)
      | Raised e s1 \<Rightarrow> Raised e s1)"

text \<open>
  \<^verbatim>\<open>capture_image\<close>: the first \<^verbatim>\<open>self.picam.stop()\<close> stands before the \<^verbatim>\<open>try\<close>, so an
  exception of that call leaves the method. \<open>capture_resolutions\<close> is the list of
  \<^verbatim>\<open>__init__\<close>, whose second entry the DNG branch uses.
\<close>

definition capture_resolutions :: "(int \<times> int) list" where
  "capture_resolutions = [(1920, 1080), (4608, 2592), (4608, 3456)]"

definition capture_image :: "world \<Rightarrow> camera_gui \<Rightarrow> outcome" where
  "capture_image w s =
     (if \<not> picam s then Done (showMessage ''Camera not initialized'' s)
      else
        (let capture_res = capture_res_combo s;
             capture_format = capture_format_combo s;
             was_preview_active = preview_timer s
         in case cam w Stop (s\<lparr>preview_timer := False\<rparr>) of
              Raised e s1 \<Rightarrow> Raised e s1
            | Done s1 \<Rightarrow>
                (let s2 = showMessage ''Capturing picture...''
                            (s1\<lparr>preview_label := LabelText ''Capturing...''\<rparr>);
                     temp_path = ''/tmp/temp_capture.'' @ capture_format;
                     filename = save_dialog w;
                     body = steps
                       [cam w (ConfigureStill capture_res),
                        cam w Start,
                        (if capture_format = ''dng'' then
                           steps [cam w (ConfigureRaw (capture_resolutions ! 1)),
                                  cam w Start,
                                  capture_file w temp_path ''dng'']
                         else capture_file w temp_path capture_format),
                        stmt (showMessage ''Picture captured. Prompting to save...''),
                        (if filename \<noteq> [] then
                           steps [os_rename temp_path filename,
                                  stmt (showMessage (upper capture_format @ '' saved: ''
                                          @ basename filename))]
                         else
                           steps [stmt (showMessage ''Picture discarded.''),
                                  os_remove temp_path])] s2;
                     s3 = (case body of
                             Done s' \<Rightarrow> s'
                           | Raised e s' \<Rightarrow>
                               (let error_msg = ''Failed to capture '' @ upper capture_format
                                      @ '': '' @ exn_str e
                                in showMessage (''Capture error: '' @ error_msg)
                                     (print error_msg s')));
                     s4 = snd (init_camera w (s3\<lparr>preview_label := LabelText []\<rparr>))
                 in Done (if was_preview_active then start_preview s4
                          else s4\<lparr>pause_btn := ''Resume Preview''\<rparr>))))"

definition start_recording :: "world \<Rightarrow> camera_gui \<Rightarrow> camera_gui" where
  "start_recording w s =
     (if is_recording s then s
      else if \<not> picam s then showMessage ''Camera not initialized'' s
      else
        (case steps
                [stmt (\<lambda>s. s\<lparr>preview_timer := False\<rparr>),
                 cam w Stop,
                 stmt (\<lambda>s. s\<lparr>preview_label := LabelText ''Recording Video...''\<rparr>),
                 cam w ConfigureVideo,
                 stmt (\<lambda>s. s\<lparr>temp_video_path := Some ''/tmp/temp_video.h264''\<rparr>),
                 cam w (StartRecording ''/tmp/temp_video.h264''),
                 stmt (\<lambda>s. s\<lparr>files := insert ''/tmp/temp_video.h264'' (files s),
                              is_recording := True,
                              start_record_btn := False,
                              stop_record_btn := True\<rparr>),
                 stmt (showMessage ''Recording...'')] s of
           Done s1 \<Rightarrow> s1
         | Raised e s1 \<Rightarrow>
             (let error_msg = ''Failed to start recording: '' @ exn_str e;
                  s2 = showMessage (''Recording error: '' @ error_msg) (print error_msg s1);
                  s3 = s2\<lparr>is_recording := False, start_record_btn := True,
                          stop_record_btn := False\<rparr>
              in start_preview (snd (init_camera w s3)))))"

section \<open>Recording finalization\<close>

definition ffmpeg_cmd :: "string \<Rightarrow> string \<Rightarrow> string list" where
  "ffmpeg_cmd temp filename = [''ffmpeg'', ''-i'', temp, ''-c'', ''copy'', filename]"

definition read_temp_video_path :: "camera_gui \<Rightarrow> exn + string" where
  "read_temp_video_path s =
     (case temp_video_path s of
        None \<Rightarrow> Inl (AttributeError ''temp_video_path'')
      | Some t \<Rightarrow> Inr t)"

definition convert_and_remove :: "world \<Rightarrow> string \<Rightarrow> camera_gui \<Rightarrow> outcome" where
  "convert_and_remove w filename s =
     (case read_temp_video_path s of
        Inl e \<Rightarrow> Raised e (showMessage ''Converting to MP4, please wait...'' s)
      | Inr temp \<Rightarrow>
          steps [stmt (showMessage ''Converting to MP4, please wait...''),
                 subprocess_run w (ffmpeg_cmd temp filename) filename,
                 stmt (showMessage (''MP4 saved to '' @ basename filename)),
                 os_remove temp] s)"

definition discard_video :: "camera_gui \<Rightarrow> outcome" where
  "discard_video s =
     (let s1 = showMessage ''Video not saved.'' s
      in case read_temp_video_path s1 of
           Inl e \<Rightarrow> Raised e s1
         | Inr temp \<Rightarrow> os_remove temp s1)"

text \<open>
  \<^verbatim>\<open>stop_recording\<close> is a \<^verbatim>\<open>try\<close> with an \<^verbatim>\<open>except Exception\<close> handler and a \<^verbatim>\<open>finally\<close>
  block. \<open>finalize_recording\<close> is the \<^verbatim>\<open>try\<close> block with its handler: stopping the encoder,
  asking for the target path, converting or discarding, and reporting an exception.
  The \<^verbatim>\<open>finally\<close> block reopens the camera and restarts the preview.
\<close>

definition finalize_recording :: "world \<Rightarrow> camera_gui \<Rightarrow> camera_gui" where
  "finalize_recording w s =
     (let filename = save_dialog w;
          body = steps
            [cam w StopRecording,
             stmt (\<lambda>s. s\<lparr>is_recording := False, start_record_btn := True,
                          stop_record_btn := False\<rparr>),
             stmt (showMessage ''Recording stopped. Saving file...''),
             stmt (\<lambda>s. s\<lparr>preview_label := LabelText ''Processing Video...''\<rparr>),
             (if filename \<noteq> [] then convert_and_remove w filename
              else discard_video)] s
      in case body of
           Done s' \<Rightarrow> s'
         | Raised e s' \<Rightarrow>
             (let error_msg = ''Failed to stop or save recording: '' @ exn_str e
              in showMessage (''Error saving video: '' @ error_msg)
                   (print error_msg s')))"

definition stop_recording :: "world \<Rightarrow> camera_gui \<Rightarrow> camera_gui" where
  "stop_recording w s =
     (if \<not> is_recording s then s
      else start_preview (snd (init_camera w (finalize_recording w s))))"

section \<open>Focus\<close>

definition set_lens_position :: "world \<Rightarrow> int \<Rightarrow> camera_gui \<Rightarrow> camera_gui" where
  "set_lens_position w v s =
     (if \<not> picam s \<or> \<not> libs_available w then s
      else
        (let position = real_of_int v / 100
         in case cam w (SetControls (LensPosition position)) s of
              Raised e s1 \<Rightarrow> print (''Lens position error: '' @ exn_str e) s1
            | Done s1 \<Rightarrow>
                s1\<lparr>lens_value_label :=
                     (if position = 0 then LensInfinity else LensMm (1000 / position))\<rparr>))"



section \<open>Frame transform pipeline\<close>

text \<open>
  Shapes and sizes of numpy arrays, for rectangular nested lists: \<open>dim0\<close> is the number
  of rows, \<open>dim1\<close> the length of a row, \<open>dim2\<close> the number of channels of a pixel.
\<close>

definition dim0 :: "'a list \<Rightarrow> nat" where
  "dim0 a = length a"

definition dim1 :: "'a list list \<Rightarrow> nat" where
  "dim1 a = (case a of [] \<Rightarrow> 0 | r # _ \<Rightarrow> length r)"

definition dim2 :: "'a list list list \<Rightarrow> nat" where
  "dim2 a = (case a of [] \<Rightarrow> 0 | r # _ \<Rightarrow> dim1 r)"

definition frame_size :: "frame \<Rightarrow> nat" where
  "frame_size a = dim0 a * dim1 a * dim2 a"

fun array_size :: "ndarray \<Rightarrow> nat" where
  "array_size (Array2 a) = dim0 a * dim1 a"
| "array_size (Array3 a) = frame_size a"
| "array_size (ArrayN n) = n"

text \<open>
  The first branch of \<^verbatim>\<open>update_preview\<close>: \<^verbatim>\<open>frame[..., :3]\<close> for an array of rank 3 with
  at least three channels, three stacked copies for an array of rank 2, and no frame for
  this tick (\<^verbatim>\<open>return\<close>) otherwise.
\<close>

fun normalize_frame :: "ndarray \<Rightarrow> frame option" where
  "normalize_frame (Array3 a) =
     (if dim2 a \<ge> 3 then Some (map (map (take 3)) a) else None)"
| "normalize_frame (Array2 a) = Some (map (map (\<lambda>v. [v, v, v])) a)"
| "normalize_frame (ArrayN n) = None"

text \<open>
  \<^verbatim>\<open>np.rot90(m, k)\<close> on the first two axes, as numpy computes it: the array itself for
  \<open>k = 0\<close>, both axes flipped for \<open>k = 2\<close>, the transpose of the array flipped along its
  second axis for \<open>k = 1\<close>, and the transpose flipped along the second axis for \<open>k = 3\<close>.
\<close>

definition rot90 :: "'a list list \<Rightarrow> int \<Rightarrow> 'a list list" where
  "rot90 m k =
     (let k' = k mod 4
      in if k' = 0 then m
         else if k' = 2 then map rev (rev m)
         else if k' = 1 then transpose (map rev m)
         else map rev (transpose m))"

text \<open>
  Python's \<^verbatim>\<open>int()\<close> of a float truncates towards zero. The scale factors are floats in
  the program; they are exact quotients here.
\<close>

definition py_int :: "real \<Rightarrow> int" where
  "py_int x = (if x < 0 then \<lceil>x\<rceil> else \<lfloor>x\<rfloor>)"

text \<open>
  The sensor-space bounds \<open>(x1, y1, x2, y2)\<close> that \<^verbatim>\<open>update_preview\<close> and
  \<^verbatim>\<open>update_magnifier\<close> compute from a display-space rectangle and the pair
  \<open>(sensor_w, sensor_h)\<close>: each edge is scaled, truncated and clamped.
\<close>

definition sensor_bounds :: "qrect \<Rightarrow> int \<times> int \<Rightarrow> int \<times> int \<times> int \<times> int" where
  "sensor_bounds rect dims =
     (let sensor_w = fst dims; sensor_h = snd dims;
          scale_x = real_of_int sensor_w / real_of_int label_w;
          scale_y = real_of_int sensor_h / real_of_int label_h;
          x1_sensor = py_int (real_of_int (left rect) * scale_x);
          y1_sensor = py_int (real_of_int (top rect) * scale_y);
          x2_sensor = py_int (real_of_int (right rect) * scale_x);
          y2_sensor = py_int (real_of_int (bottom rect) * scale_y)
      in (max 0 (min x1_sensor sensor_w),
          max 0 (min y1_sensor sensor_h),
          max 0 (min x2_sensor sensor_w),
          max 0 (min y2_sensor sensor_h)))"

text \<open>
  \<^verbatim>\<open>a[lo:hi]\<close> for bounds that are not negative, and the slice
  \<^verbatim>\<open>img[y1:y2, x1:x2, :]\<close> built from it.
\<close>

definition py_slice :: "'a list \<Rightarrow> int \<Rightarrow> int \<Rightarrow> 'a list" where
  "py_slice a lo hi = take (nat (hi - lo)) (drop (nat lo) a)"

definition slice_frame :: "frame \<Rightarrow> int \<times> int \<times> int \<times> int \<Rightarrow> frame" where
  "slice_frame img b =
     (case b of (x1s, y1s, x2s, y2s) \<Rightarrow>
        map (\<lambda>row. py_slice row x1s x2s) (py_slice img y1s y2s))"

definition astype_uint8 :: "frame \<Rightarrow> frame" where
  "astype_uint8 img = map (map (map (\<lambda>v. v mod 256))) img"

definition black_image :: "int \<times> int \<Rightarrow> frame" where
  "black_image wh = replicate (nat (snd wh)) (replicate (nat (fst wh)) [0, 0, 0])"

text \<open>
  The array \<^verbatim>\<open>img\<close> of \<^verbatim>\<open>update_preview\<close> after the rotation and the crop, for the
  normalised frame \<open>img0\<close> (which is also what \<^verbatim>\<open>self.current_frame\<close> holds at that point).
\<close>

definition transformed_frame :: "camera_gui \<Rightarrow> frame \<Rightarrow> frame" where
  "transformed_frame s img0 =
     (let cur = img0;
          img1 = (if rotation s \<noteq> 0 then rot90 img0 ((rotation s div 90) mod 4) else img0)
      in case applied_crop_rect s of
           None \<Rightarrow> img1
         | Some c \<Rightarrow>
             if qrect_bool c
             then slice_frame cur (sensor_bounds c (current_preview_resolution s))
             else img1)"

text \<open>The Pillow image made of \<^verbatim>\<open>img\<close>: resized, or black when the array is empty.\<close>

definition scaled_image :: "imaging \<Rightarrow> frame \<Rightarrow> frame" where
  "scaled_image pil img =
     (if frame_size img > 0
      then resize_lanczos pil (astype_uint8 img) (label_w, label_h)
      else black_image (label_w, label_h))"

definition rect_box :: "qrect \<Rightarrow> int \<times> int \<times> int \<times> int" where
  "rect_box r = (left r, top r, right r, bottom r)"

definition draw_overlays :: "imaging \<Rightarrow> camera_gui \<Rightarrow> frame \<Rightarrow> frame" where
  "draw_overlays pil s img_pil =
     (let d1 = (case temp_drawn_rect s of
                  None \<Rightarrow> img_pil
                | Some r \<Rightarrow>
                    if qrect_bool r then draw_rectangle pil img_pil (rect_box r) Red
                    else img_pil)
      in if magnifier_toggle s
         then draw_rectangle pil d1 (rect_box (mag_rect s)) Blue
         else d1)"

definition mag_label_size :: "int \<times> int" where
  "mag_label_size = (200, 200)"

definition update_magnifier :: "imaging \<Rightarrow> camera_gui \<Rightarrow> camera_gui" where
  "update_magnifier pil s =
     (case current_frame s of
        None \<Rightarrow> s
      | Some img \<Rightarrow>
          (let h = int (dim0 img); w = int (dim1 img);
               crop = slice_frame img (sensor_bounds (mag_rect s) (w, h))
           in if frame_size crop > 0
              then s\<lparr>mag_label :=
                       LabelPixmap (resize_nearest pil (astype_uint8 crop) mag_label_size)\<rparr>
              else s\<lparr>mag_label := LabelText ''No content''\<rparr>))"

definition update_preview :: "imaging \<Rightarrow> world \<Rightarrow> camera_gui \<Rightarrow> camera_gui" where
  "update_preview pil w s =
     (if \<not> picam s then s
      else
        (case cam w CaptureArray s of
           Raised e s1 \<Rightarrow> print (''Preview update error: '' @ exn_str e) s1
         | Done s1 \<Rightarrow>
             (case cam_frame w (length (cam_calls s)) of
                None \<Rightarrow> s1
              | Some fr \<Rightarrow>
                  if array_size fr = 0 then s1
                  else
                    (case normalize_frame fr of
                       None \<Rightarrow> s1
                     | Some img0 \<Rightarrow>
                         (let s2 = s1\<lparr>current_frame := Some img0\<rparr>;
                              img = transformed_frame s2 img0;
                              img_pil = scaled_image pil img;
                              draw_img = draw_overlays pil s2 img_pil;
                              s3 = (if magnifier_toggle s2 then update_magnifier pil s2 else s2)
                          in s3\<lparr>preview_label := LabelPixmap draw_img\<rparr>)))))"

text \<open>
  The order the specification gives for the same stage: the crop is sliced out of the
  rotated frame. It is used only to compare the program with.
\<close>

definition spec_rotate_then_crop :: "camera_gui \<Rightarrow> frame \<Rightarrow> frame" where
  "spec_rotate_then_crop s img0 =
     (let img1 = (if rotation s \<noteq> 0 then rot90 img0 ((rotation s div 90) mod 4) else img0)
      in case applied_crop_rect s of
           None \<Rightarrow> img1
         | Some c \<Rightarrow>
             if qrect_bool c
             then slice_frame img1 (sensor_bounds c (current_preview_resolution s))
             else img1)"

section \<open>The window after construction\<close>

text \<open>
  The fields as \<^verbatim>\<open>__init__\<close> and \<^verbatim>\<open>setup_ui\<close> leave them, before the camera is opened;
  \<open>fs\<close> is the set of files that exist when the program starts. \<open>startup\<close> adds
  \<^verbatim>\<open>init_camera()\<close> and \<^verbatim>\<open>start_preview()\<close>.
\<close>

definition new_gui :: "string set \<Rightarrow> camera_gui" where
  "new_gui fs =
     center_magnifier_box
       \<lparr>picam = False,
        cam_calls = [],
        preview_timer = False,
        is_preview_paused = False,
        current_frame = None,
        is_recording = False,
        temp_drawn_rect = None,
        applied_crop_rect = None,
        mag_rect = QRect 10 10 150 150,
        is_mag_dragging = False,
        drag_offset = None,
        rotation = 0,
        is_dragging = False,
        drag_start = None,
        current_preview_resolution = (1280, 720),
        temp_video_path = None,
        magnifier_toggle = False,
        crop_apply_btn = False,
        start_record_btn = True,
        stop_record_btn = False,
        capture_res_combo = (4608, 3456),
        capture_format_combo = ''jpeg'',
        lens_value_label = LensInitial,
        preview_label = LabelText ''Initializing camera...'',
        mag_label = LabelText ''Magnifier'',
        pause_btn = ''Pause Preview'',
        status_bar = [''Ready''],
        stdout = [],
        files = fs\<rparr>"

definition startup :: "world \<Rightarrow> string set \<Rightarrow> camera_gui" where
  "startup w fs = start_preview (snd (init_camera w (new_gui fs)))"


section \<open>Predicates of the properties and concrete inputs\<close>

text \<open>
  A crop region meets the noise threshold when there is none or both of its sides are at
  least 10 pixels long; \<open>above_threshold\<close> is the stricter test that enables the Apply
  button. \<open>crop_inv\<close> is the invariant of the input model: an enabled Apply button means
  that the draft, if any, is above the threshold, the applied crop is above it, and a
  magnifier drag has its offset.
\<close>

definition meets_threshold :: "qrect option \<Rightarrow> bool" where
  "meets_threshold c =
     (case c of None \<Rightarrow> True | Some r \<Rightarrow> 10 \<le> width r \<and> 10 \<le> height r)"

definition above_threshold :: "qrect option \<Rightarrow> bool" where
  "above_threshold c =
     (case c of None \<Rightarrow> True | Some r \<Rightarrow> 10 < width r \<and> 10 < height r)"

definition crop_inv :: "camera_gui \<Rightarrow> bool" where
  "crop_inv s \<longleftrightarrow>
     (crop_apply_btn s \<longrightarrow> above_threshold (temp_drawn_rect s))
     \<and> above_threshold (applied_crop_rect s)
     \<and> (is_mag_dragging s \<longrightarrow> drag_offset s \<noteq> None)"

text \<open>A rectangle lies within the display surface, the 800 \<times> 600 preview label.\<close>

definition within_display :: "qrect \<Rightarrow> bool" where
  "within_display r \<longleftrightarrow>
     0 \<le> left r \<and> 0 \<le> top r \<and> right r < label_w \<and> bottom r < label_h"

text \<open>\<open>keeps g f\<close>: the step \<open>f\<close> leaves the observation \<open>g\<close> of the state as it was.\<close>

definition keeps :: "(camera_gui \<Rightarrow> 'a) \<Rightarrow> (camera_gui \<Rightarrow> outcome) \<Rightarrow> bool" where
  "keeps g f \<longleftrightarrow> (\<forall>s. g (state_of (f s)) = g s)"

text \<open>
  A world in which the libraries are present, no camera call raises, every frame request
  returns \<^verbatim>\<open>None\<close>, the save dialog is cancelled and the transcoder succeeds; and the
  window started in it with no files around.
\<close>

definition quiet_world :: world where
  "quiet_world =
     \<lparr>libs_available = True,
      cam_raises = (\<lambda>n. None),
      cam_frame = (\<lambda>n. None),
      save_dialog = [],
      ffmpeg = ProcExit 0 True\<rparr>"

definition quiet_gui :: camera_gui where
  "quiet_gui = startup quiet_world {}"

definition mouse :: "int \<Rightarrow> int \<Rightarrow> mouse_button \<Rightarrow> mouse_event" where
  "mouse ax ay b = \<lparr>pos = QPoint ax ay, button = b\<rparr>"


text \<open>The pointer events of a magnifier drag into the top-left corner of the preview.\<close>

definition drag_events :: "gui_event list" where
  "drag_events = [ToggleMagnifier True, Press (mouse 330 230 LeftButton), Move (mouse 0 0 NoButton)]"

text \<open>
  Inputs for the frame pipeline: a world whose camera returns the array \<open>fr\<close> at every
  frame request, a 2 \<times> 2 array of grey levels with its three-channel form, and Pillow
  operations that return their image unchanged (used only to instantiate the \<open>imaging\<close>
  parameter at concrete inputs).
\<close>

definition frame_world :: "ndarray \<Rightarrow> world" where
  "frame_world fr = quiet_world\<lparr>cam_frame := (\<lambda>n. Some fr)\<rparr>"

definition small_frame :: ndarray where
  "small_frame = Array2 [[1, 2], [3, 4]]"

definition plain_imaging :: imaging where
  "plain_imaging =
     \<lparr>resize_lanczos = (\<lambda>img wh. img),
      resize_nearest = (\<lambda>img wh. img),
      draw_rectangle = (\<lambda>img box col. img)\<rparr>"

definition small_rgb :: frame where
  "small_rgb = [[[1, 1, 1], [2, 2, 2]], [[3, 3, 3], [4, 4, 4]]]"

text \<open>
  \<open>grows g f\<close>: the step \<open>f\<close> only appends to the list \<open>g\<close> of the state (the status bar
  history or the standard output).
\<close>

definition grows :: "(camera_gui \<Rightarrow> 'a list) \<Rightarrow> (camera_gui \<Rightarrow> outcome) \<Rightarrow> bool" where
  "grows g f \<longleftrightarrow> (\<forall>s. prefix (g s) (g (state_of (f s))))"

text \<open>
  Inputs for capture and recording: the window after \<^verbatim>\<open>start_recording\<close> succeeded, a world
  in which the save dialog returns the path \<open>f\<close> and the transcoder succeeds, and one in
  which the dialog returns \<open>f\<close> and the transcoder exits with status 1 leaving no output.
\<close>

definition recording_gui :: camera_gui where
  "recording_gui = start_recording quiet_world quiet_gui"

definition save_world :: "string \<Rightarrow> world" where
  "save_world f = quiet_world\<lparr>save_dialog := f\<rparr>"

definition fail_world :: "string \<Rightarrow> world" where
  "fail_world f = quiet_world\<lparr>save_dialog := f, ffmpeg := ProcExit 1 False\<rparr>"

text \<open>A crop drag from (100, 100) to (99, 300), one pixel to the left of its start, and its release.\<close>

definition thin_drag_events :: "gui_event list" where
  "thin_drag_events =
     [Press (mouse 100 100 LeftButton), Move (mouse 99 300 NoButton),
      Release (mouse 99 300 NoButton)]"

text \<open>A world in which the save dialog returns \<open>f\<close> and the transcoder cannot be started.\<close>

definition notfound_world :: "string \<Rightarrow> world" where
  "notfound_world f = quiet_world\<lparr>save_dialog := f, ffmpeg := ProcNotFound\<rparr>"





section \<open>Auxiliary facts\<close>

lemma mouse_fields: "pos (mouse ax ay b) = QPoint ax ay" "button (mouse ax ay b) = b"
  by (simp_all add: mouse_def)

lemma keeps_steps: "list_all (keeps g) fs \<Longrightarrow> keeps g (steps fs)"
proof (induction fs)
  case Nil
  show ?case by (simp add: keeps_def state_of_def)
next
  case (Cons f fs)
  then have f: "\<And>s. g (state_of (f s)) = g s" and r: "\<And>s. g (state_of (steps fs s)) = g s"
    by (simp_all add: keeps_def)
  show ?case unfolding keeps_def
  proof
    fix s
    show "g (state_of (steps (f # fs) s)) = g s"
    proof (cases "f s")
      case (Done s')
      with f [of s] r [of s'] show ?thesis by (simp add: state_of_def)
    next
      case (Raised x s')
      with f [of s] show ?thesis by (simp add: state_of_def)
    qed
  qed
qed

lemma keeps_stmt: "(\<And>s. g (f s) = g s) \<Longrightarrow> keeps g (stmt f)"
  by (simp add: keeps_def stmt_def state_of_def)

lemma keeps_cam: "(\<And>s c. g (s\<lparr>cam_calls := c\<rparr>) = g s) \<Longrightarrow> keeps g (cam w c)"
  by (simp add: keeps_def cam_def state_of_def Let_def split: option.splits)

lemma keeps_state: "keeps g f \<Longrightarrow> g (state_of (f s)) = g s"
  by (simp add: keeps_def)

lemma init_camera_keeps:
  assumes c: "\<And>s c. g (s\<lparr>cam_calls := c\<rparr>) = g s"
    and p: "\<And>s b. g (s\<lparr>picam := b\<rparr>) = g s"
    and m: "\<And>s b. g (s\<lparr>status_bar := b\<rparr>) = g s"
    and o: "\<And>s b. g (s\<lparr>stdout := b\<rparr>) = g s"
  shows "g (snd (init_camera w s)) = g s"
proof (cases "libs_available w")
  case False
  then show ?thesis by (simp add: init_camera_def)
next
  case True
  define s1 where "s1 = (if picam s then state_of (steps [cam w Stop, cam w Close] s) else s)"
  have k1: "keeps g (steps [cam w Stop, cam w Close])"
    by (rule keeps_steps) (simp add: keeps_cam c)
  have s1: "g s1 = g s"
    by (simp add: s1_def keeps_state [OF k1] del: steps.simps)
  define body where "body = steps
                  [cam w Picamera2,
                   stmt (\<lambda>s. s\<lparr>picam := True\<rparr>),
                   cam w (ConfigurePreview (current_preview_resolution s1)),
                   cam w Start,
                   cam w (SetControls (AfMode AfContinuous)),
                   stmt (showMessage (''Camera initialized with preview stream at ''
                           @ str_int (fst (current_preview_resolution s1)) @ ''x'' @ str_int (snd (current_preview_resolution s1))))]"
  have k2: "keeps g body" unfolding body_def
    by (rule keeps_steps) (simp add: keeps_cam keeps_stmt c p m showMessage_def)
  have b: "g (state_of (body s1)) = g s"
    by (simp add: keeps_state [OF k2] s1)
  have "snd (init_camera w s) =
        (case body s1 of Done s2 \<Rightarrow> s2
         | Raised e s2 \<Rightarrow> showMessage ''Camera initialization failed''
                   (print (''Failed to initialize camera: '' @ exn_str e) s2))"
    using True by (simp add: init_camera_def Let_def s1_def body_def del: steps.simps split: outcome.splits)
  with b show ?thesis
    by (simp add: state_of_def showMessage_def print_def m o split: outcome.splits)
qed

lemma crop_inv_startup: "crop_inv (startup w fs)"
  by (simp add: crop_inv_def startup_def start_preview_def init_camera_keeps
      new_gui_def center_magnifier_box_def above_threshold_def)

lemma crop_inv_press: "crop_inv s \<Longrightarrow> crop_inv (preview_mouse_press e s)"
  unfolding crop_inv_def preview_mouse_press_def
  by (cases "magnifier_toggle s \<and> contains (mag_rect s) (pos e)"; cases "button e = LeftButton")
     (simp_all add: above_threshold_def)

lemma crop_inv_release: "crop_inv s \<Longrightarrow> crop_inv (preview_mouse_release e s)"
  unfolding crop_inv_def preview_mouse_release_def Let_def
  by (cases "is_dragging s"; cases "temp_drawn_rect s")
     (simp_all add: above_threshold_def)

lemma crop_inv_apply: "crop_inv s \<Longrightarrow> crop_apply_btn s \<Longrightarrow> crop_inv (apply_crop_from_rect s)"
  unfolding crop_inv_def apply_crop_from_rect_def
  by (cases "temp_drawn_rect s") (simp_all add: above_threshold_def)

lemma crop_inv_clear: "crop_inv s \<Longrightarrow> crop_inv (clear_crop s)"
  by (simp add: crop_inv_def clear_crop_def above_threshold_def)

lemma crop_inv_toggle: "crop_inv s \<Longrightarrow> crop_inv (toggle_magnifier c s)"
  by (simp add: crop_inv_def toggle_magnifier_def center_magnifier_box_def Let_def)

lemma crop_inv_move: "crop_inv s \<Longrightarrow> \<exists>s'. preview_mouse_move e s = Done s' \<and> crop_inv s'"
  unfolding crop_inv_def preview_mouse_move_def Let_def
  by (cases "is_mag_dragging s"; cases "drag_offset s"; cases "drag_start s")
     (simp_all add: above_threshold_def)

lemma crop_inv_event: "crop_inv s \<Longrightarrow> \<exists>s'. handle_event ev s = Done s' \<and> crop_inv s'"
  by (cases ev) (simp_all add: crop_inv_press crop_inv_move crop_inv_release crop_inv_apply
      crop_inv_clear crop_inv_toggle)

lemma crop_inv_run: "crop_inv s \<Longrightarrow> \<exists>s'. run_events evs s = Done s' \<and> crop_inv s'"
proof (induction evs arbitrary: s)
  case Nil
  then show ?case by simp
next
  case (Cons ev evs)
  from crop_inv_event [OF Cons.prems, of ev]
  obtain s1 where s1: "handle_event ev s = Done s1" "crop_inv s1" by blast
  from Cons.IH [OF s1(2)] s1(1) show ?case by simp
qed

lemma above_meets: "above_threshold c \<Longrightarrow> meets_threshold c"
  by (cases c) (simp_all add: above_threshold_def meets_threshold_def)

lemma release_discards_small:
  "is_dragging s \<Longrightarrow> temp_drawn_rect s = Some r \<Longrightarrow> qrect_bool r \<Longrightarrow>
   width r < 10 \<or> height r < 10 \<Longrightarrow> temp_drawn_rect (preview_mouse_release e s) = None"
  by (simp add: preview_mouse_release_def Let_def)

lemma quiet_gui_fields:
  "temp_drawn_rect quiet_gui = None"
  "applied_crop_rect quiet_gui = None"
  "crop_apply_btn quiet_gui = False"
  "is_mag_dragging quiet_gui = False"
  "is_dragging quiet_gui = False"
  "drag_offset quiet_gui = None"
  "drag_start quiet_gui = None"
  "magnifier_toggle quiet_gui = False"
  "mag_rect quiet_gui = QRectC 325 225 474 374"
  by (simp_all add: quiet_gui_def startup_def start_preview_def init_camera_keeps
      new_gui_def center_magnifier_box_def moveTo_def QRect_def width_def height_def label_w_def label_h_def)

lemma press_quiet_fields:
  "is_dragging (preview_mouse_press (mouse 100 100 LeftButton) quiet_gui)"
  "temp_drawn_rect (preview_mouse_press (mouse 100 100 LeftButton) quiet_gui) = Some (QRectC 100 100 100 100)"
  by (simp_all add: preview_mouse_press_def quiet_gui_fields mouse_def QRectPP_def)

lemma shown_fields:
  "magnifier_toggle (toggle_magnifier True quiet_gui)"
  "mag_rect (toggle_magnifier True quiet_gui) = QRectC 325 225 474 374"
  "temp_drawn_rect (toggle_magnifier True quiet_gui) = None"
  "is_dragging (toggle_magnifier True quiet_gui) = False"
  "is_mag_dragging (toggle_magnifier True quiet_gui) = False"
  "drag_start (toggle_magnifier True quiet_gui) = None"
  by (simp_all add: toggle_magnifier_def center_magnifier_box_def Let_def quiet_gui_fields
      moveTo_def width_def height_def label_w_def label_h_def)

lemma drag_events_state:
  "run_events drag_events quiet_gui =
     Done (toggle_magnifier True quiet_gui
            \<lparr>is_mag_dragging := True, drag_offset := Some (QPoint 5 5),
             mag_rect := QRectC (- 5) (- 5) 144 144\<rparr>)"
  by (simp add: drag_events_def preview_mouse_press_def preview_mouse_move_def shown_fields
      contains_def mouse_def qpoint_sub_def topLeft_def moveTopLeft_def)

lemma pressed_fields:
  "is_mag_dragging (preview_mouse_press (mouse 330 230 LeftButton) (toggle_magnifier True quiet_gui))"
  "drag_offset (preview_mouse_press (mouse 330 230 LeftButton) (toggle_magnifier True quiet_gui))
     = Some (QPoint 5 5)"
  "mag_rect (preview_mouse_press (mouse 330 230 LeftButton) (toggle_magnifier True quiet_gui))
     = QRectC 325 225 474 374"
  by (simp_all add: preview_mouse_press_def shown_fields contains_def mouse_def qpoint_sub_def
      topLeft_def)

lemma quiet_gui_camera:
  "picam quiet_gui"
  "cam_calls quiet_gui = [Picamera2, ConfigurePreview (1280, 720), Start, SetControls (AfMode AfContinuous)]"
  "current_preview_resolution quiet_gui = (1280, 720)"
  "stdout quiet_gui = []"
  by (simp_all add: quiet_gui_def startup_def start_preview_def init_camera_def new_gui_def
      center_magnifier_box_def quiet_world_def cam_def stmt_def showMessage_def Let_def)

lemma draw_overlays_cong:
  "temp_drawn_rect s' = temp_drawn_rect s \<Longrightarrow> magnifier_toggle s' = magnifier_toggle s \<Longrightarrow>
   mag_rect s' = mag_rect s \<Longrightarrow> draw_overlays pil s' img = draw_overlays pil s img"
  by (simp add: draw_overlays_def Let_def cong: if_cong option.case_cong)

lemma transformed_frame_cong:
  "rotation s' = rotation s \<Longrightarrow> applied_crop_rect s' = applied_crop_rect s \<Longrightarrow>
   current_preview_resolution s' = current_preview_resolution s \<Longrightarrow>
   transformed_frame s' img = transformed_frame s img"
  by (simp add: transformed_frame_def Let_def cong: if_cong option.case_cong)


lemma update_magnifier_other:
  "stdout (update_magnifier pil s) = stdout s"
  "current_frame (update_magnifier pil s) = current_frame s"
  by (simp_all add: update_magnifier_def Let_def split: option.splits)

lemma update_preview_tick:
  assumes "picam s"
    and "cam_raises w (length (cam_calls s)) = None"
    and "cam_frame w (length (cam_calls s)) = Some fr"
    and "array_size fr \<noteq> 0"
    and "normalize_frame fr = Some img0"
    and "s2 = s\<lparr>cam_calls := cam_calls s @ [CaptureArray], current_frame := Some img0\<rparr>"
  shows "update_preview pil w s =
     (if magnifier_toggle s then update_magnifier pil s2 else s2)
           \<lparr>preview_label :=
              LabelPixmap (draw_overlays pil s (scaled_image pil (transformed_frame s img0)))\<rparr>"
proof -
  define s1 where "s1 = s\<lparr>cam_calls := cam_calls s @ [CaptureArray]\<rparr>"
  have c: "cam w CaptureArray s = Done s1"
    using assms(2) by (simp add: cam_def s1_def)
  have s2: "s2 = s1\<lparr>current_frame := Some img0\<rparr>"
    by (simp add: assms(6) s1_def)
  have d: "draw_overlays pil s2 (scaled_image pil (transformed_frame s2 img0))
         = draw_overlays pil s (scaled_image pil (transformed_frame s img0))"
  proof -
    have "transformed_frame s2 img0 = transformed_frame s img0"
      by (rule transformed_frame_cong) (simp_all add: assms(6))
    moreover have "draw_overlays pil s2 (scaled_image pil (transformed_frame s img0))
         = draw_overlays pil s (scaled_image pil (transformed_frame s img0))"
      by (rule draw_overlays_cong) (simp_all add: assms(6))
    ultimately show ?thesis by simp
  qed
  have m: "magnifier_toggle s2 = magnifier_toggle s"
    by (simp add: assms(6))
  have "update_preview pil w s =
      (if magnifier_toggle s2 then update_magnifier pil s2 else s2)
           \<lparr>preview_label :=
              LabelPixmap (draw_overlays pil s2 (scaled_image pil (transformed_frame s2 img0)))\<rparr>"
    unfolding update_preview_def Let_def c
    using assms(1,3,4,5) by (simp add: s2)
  then show ?thesis by (simp only: d m)
qed

lemma slice_frame_empty:
  "xb \<le> xa \<or> yb \<le> ya \<Longrightarrow> frame_size (slice_frame img (xa, ya, xb, yb)) = 0"
proof (cases "yb \<le> ya")
  case True
  then show ?thesis
    by (simp add: frame_size_def slice_frame_def py_slice_def dim0_def)
next
  case False
  assume "xb \<le> xa \<or> yb \<le> ya"
  with False have x: "xb \<le> xa" by simp
  have "slice_frame img (xa, ya, xb, yb) = map (\<lambda>row. []) (py_slice img ya yb)"
    using x by (simp add: slice_frame_def py_slice_def)
  then have "dim1 (slice_frame img (xa, ya, xb, yb)) = 0"
    by (cases "py_slice img ya yb") (simp_all add: dim1_def)
  then show ?thesis by (simp add: frame_size_def)
qed

lemma frame_world_fields:
  "cam_raises (frame_world fr) n = None"
  "cam_frame (frame_world fr) n = Some fr"
  "libs_available (frame_world fr)"
  by (simp_all add: frame_world_def quiet_world_def)

lemma small_frame_facts:
  "array_size small_frame \<noteq> 0"
  "normalize_frame small_frame = Some small_rgb"
  by (simp_all add: small_frame_def small_rgb_def dim0_def dim1_def)

lemma grows_steps: "list_all (grows g) fs \<Longrightarrow> grows g (steps fs)"
proof (induction fs)
  case Nil
  show ?case by (simp add: grows_def state_of_def)
next
  case (Cons f fs)
  then have f: "\<And>s. prefix (g s) (g (state_of (f s)))"
    and r: "\<And>s. prefix (g s) (g (state_of (steps fs s)))"
    by (simp_all add: grows_def)
  show ?case unfolding grows_def
  proof
    fix s
    show "prefix (g s) (g (state_of (steps (f # fs) s)))"
    proof (cases "f s")
      case (Done s')
      with f [of s] r [of s'] show ?thesis
        by (auto simp: state_of_def intro: prefix_order.trans)
    next
      case (Raised x s')
      with f [of s] show ?thesis by (simp add: state_of_def)
    qed
  qed
qed

lemma grows_keeps: "keeps g f \<Longrightarrow> grows g f"
  by (simp add: keeps_def grows_def)

lemma grows_state: "grows g f \<Longrightarrow> prefix (g s) (g (state_of (f s)))"
  by (simp add: grows_def)

lemma grows_stmt: "(\<And>s. prefix (g s) (g (f s))) \<Longrightarrow> grows g (stmt f)"
  by (simp add: grows_def stmt_def state_of_def)

lemma init_camera_grows:
  assumes c: "\<And>s c. g (s\<lparr>cam_calls := c\<rparr>) = g s"
    and p: "\<And>s b. g (s\<lparr>picam := b\<rparr>) = g s"
    and m: "\<And>s x. prefix (g s) (g (showMessage x s))"
    and o: "\<And>s x. prefix (g s) (g (print x s))"
  shows "prefix (g s) (g (snd (init_camera w s)))"
proof (cases "libs_available w")
  case False
  then show ?thesis by (simp add: init_camera_def)
next
  case True
  define s1 where "s1 = (if picam s then state_of (steps [cam w Stop, cam w Close] s) else s)"
  have k1: "keeps g (steps [cam w Stop, cam w Close])"
    by (rule keeps_steps) (simp add: keeps_cam c)
  have s1: "g s1 = g s"
    by (simp add: s1_def keeps_state [OF k1] del: steps.simps)
  define body where "body = steps
                  [cam w Picamera2,
                   stmt (\<lambda>s. s\<lparr>picam := True\<rparr>),
                   cam w (ConfigurePreview (current_preview_resolution s1)),
                   cam w Start,
                   cam w (SetControls (AfMode AfContinuous)),
                   stmt (showMessage (''Camera initialized with preview stream at ''
                           @ str_int (fst (current_preview_resolution s1)) @ ''x'' @ str_int (snd (current_preview_resolution s1))))]"
  have k2: "grows g body" unfolding body_def
    by (rule grows_steps) (simp add: grows_keeps keeps_cam keeps_stmt grows_stmt c p m)
  have b: "prefix (g s) (g (state_of (body s1)))"
    using grows_state [OF k2, of s1] by (simp add: s1)
  have e: "snd (init_camera w s) =
        (case body s1 of Done s2 \<Rightarrow> s2
         | Raised e s2 \<Rightarrow> showMessage ''Camera initialization failed''
                   (print (''Failed to initialize camera: '' @ exn_str e) s2))"
    using True by (simp add: init_camera_def Let_def s1_def body_def del: steps.simps split: outcome.splits)
  show ?thesis
  proof (cases "body s1")
    case (Done s2)
    with b e show ?thesis by (simp add: state_of_def)
  next
    case (Raised x s2)
    with b have "prefix (g s) (g s2)" by (simp add: state_of_def)
    also have "prefix (g s2) (g (print (''Failed to initialize camera: '' @ exn_str x) s2))"
      by (rule o)
    also have "prefix \<dots> (g (showMessage ''Camera initialization failed''
                   (print (''Failed to initialize camera: '' @ exn_str x) s2)))"
      by (rule m)
    finally show ?thesis using e Raised by simp
  qed
qed

lemma stop_recording_files:
  "is_recording s \<Longrightarrow> files (stop_recording w s) = files (finalize_recording w s)"
  by (simp add: stop_recording_def start_preview_def init_camera_keeps)

lemma stop_recording_stdout:
  "is_recording s \<Longrightarrow> set (stdout (finalize_recording w s)) \<subseteq> set (stdout (stop_recording w s))"
proof -
  assume "is_recording s"
  have "prefix (stdout (finalize_recording w s)) (stdout (snd (init_camera w (finalize_recording w s))))"
    by (rule init_camera_grows) (simp_all add: showMessage_def print_def)
  then show ?thesis using \<open>is_recording s\<close>
    by (simp add: stop_recording_def start_preview_def set_mono_prefix)
qed

lemma stop_recording_status:
  "is_recording s \<Longrightarrow> set (status_bar (finalize_recording w s)) \<subseteq> set (status_bar (stop_recording w s))"
proof -
  assume "is_recording s"
  have "prefix (status_bar (finalize_recording w s)) (status_bar (snd (init_camera w (finalize_recording w s))))"
    by (rule init_camera_grows) (simp_all add: showMessage_def print_def)
  then show ?thesis using \<open>is_recording s\<close>
    by (simp add: stop_recording_def start_preview_def set_mono_prefix)
qed

lemma finalize_declined:
  assumes "cam_raises w (length (cam_calls s)) = None" and "temp_video_path s = Some t"
    and "t \<in> files s" and "save_dialog w = []"
  shows "files (finalize_recording w s) = files s - {t}"
    and "stdout (finalize_recording w s) = stdout s"
    and "status_bar (finalize_recording w s)
           = status_bar s @ [''Recording stopped. Saving file...'', ''Video not saved.'']"
  using assms
  by (simp_all add: finalize_recording_def cam_def stmt_def showMessage_def discard_video_def
      read_temp_video_path_def os_remove_def Let_def)

lemma finalize_converted:
  assumes "cam_raises w (length (cam_calls s)) = None" and "temp_video_path s = Some t"
    and "t \<in> files s" and "save_dialog w \<noteq> []" and "ffmpeg w = ProcExit 0 b"
  shows "files (finalize_recording w s) = insert (save_dialog w) (files s) - {t}"
    and "stdout (finalize_recording w s) = stdout s"
    and "status_bar (finalize_recording w s)
           = status_bar s @ [''Recording stopped. Saving file...'',
                ''Converting to MP4, please wait...'',
                ''MP4 saved to '' @ basename (save_dialog w)]"
  using assms
  by (simp_all add: finalize_recording_def cam_def stmt_def showMessage_def convert_and_remove_def
      read_temp_video_path_def subprocess_run_def os_remove_def Let_def)

lemma finalize_failed:
  assumes "cam_raises w (length (cam_calls s)) = None" and "temp_video_path s = Some t"
    and "t \<in> files s" and "save_dialog w \<noteq> []" and "ffmpeg w = ProcExit rc b" and "rc \<noteq> 0"
    and "msg = ''Failed to stop or save recording: ''
                 @ exn_str (CalledProcessError (ffmpeg_cmd t (save_dialog w)) rc)"
  shows "files (finalize_recording w s)
           = (if b then insert (save_dialog w) (files s) else files s)"
    and "stdout (finalize_recording w s) = stdout s @ [msg]"
    and "status_bar (finalize_recording w s)
           = status_bar s @ [''Recording stopped. Saving file...'',
                ''Converting to MP4, please wait...'',
                ''Error saving video: '' @ msg]"
  using assms(1-6) unfolding assms(7)
  by (simp_all add: finalize_recording_def cam_def stmt_def showMessage_def print_def
      convert_and_remove_def read_temp_video_path_def subprocess_run_def os_remove_def Let_def
      del: exn_str.simps)

lemma finalize_not_started:
  assumes "cam_raises w (length (cam_calls s)) = None" and "temp_video_path s = Some t"
    and "t \<in> files s" and "save_dialog w \<noteq> []" and "ffmpeg w = ProcNotFound"
  shows "files (finalize_recording w s) = files s"
  using assms
  by (simp_all add: finalize_recording_def cam_def stmt_def showMessage_def print_def
      convert_and_remove_def read_temp_video_path_def subprocess_run_def os_remove_def Let_def
      del: exn_str.simps)

lemma sublist_after_prefix: "sublist xs ys \<Longrightarrow> sublist xs (zs @ ys)"
proof -
  assume "sublist xs ys"
  then obtain ps ss where "ys = ps @ xs @ ss" unfolding sublist_def by blast
  then have "zs @ ys = (zs @ ps) @ xs @ ss" by simp
  then show ?thesis unfolding sublist_def by blast
qed

lemma called_process_error_names_input:
  "sublist t (exn_str (CalledProcessError (ffmpeg_cmd t f) rc))"
proof -
  have "exn_str (CalledProcessError (ffmpeg_cmd t f) rc)
      = (''Command '' @ [CHR 0x27] @ ''['' @ py_repr ''ffmpeg'' @ '', '' @ py_repr ''-i'' @ '', '' @ [CHR 0x27])
        @ t @ ([CHR 0x27] @ '', '' @ join_comma (map py_repr [''-c'', ''copy'', f]) @ '']'' @ [CHR 0x27]
               @ '' returned non-zero exit status '' @ str_nat rc @ ''.'')"
    by (simp add: ffmpeg_cmd_def py_repr_list_def py_repr_def del: str_nat.simps)
  then show ?thesis
    unfolding sublist_def by blast
qed

lemma quiet_gui_session:
  "picam quiet_gui"
  "is_recording quiet_gui = False"
  "files quiet_gui = {}"
  "preview_timer quiet_gui"
  "capture_res_combo quiet_gui = (4608, 3456)"
  "capture_format_combo quiet_gui = ''jpeg''"
  "cam_calls quiet_gui = [Picamera2, ConfigurePreview (1280, 720), Start, SetControls (AfMode AfContinuous)]"
  "current_preview_resolution quiet_gui = (1280, 720)"
  by (simp_all add: quiet_gui_def startup_def start_preview_def init_camera_def new_gui_def
      center_magnifier_box_def quiet_world_def cam_def stmt_def showMessage_def Let_def)

lemma recording_gui_fields:
  "picam recording_gui"
  "is_recording recording_gui"
  "temp_video_path recording_gui = Some ''/tmp/temp_video.h264''"
  "files recording_gui = {''/tmp/temp_video.h264''}"
  "preview_timer recording_gui = False"
  "capture_res_combo recording_gui = (4608, 3456)"
  "capture_format_combo recording_gui = ''jpeg''"
  "current_preview_resolution recording_gui = (1280, 720)"
  "cam_calls recording_gui
     = [Picamera2, ConfigurePreview (1280, 720), Start, SetControls (AfMode AfContinuous),
        Stop, ConfigureVideo, StartRecording ''/tmp/temp_video.h264'']"
  by (simp_all add: recording_gui_def start_recording_def quiet_gui_session cam_def stmt_def
      showMessage_def Let_def quiet_world_def)

lemma world_fields:
  "cam_raises quiet_world n = None"
  "save_dialog quiet_world = []"
  "cam_raises (save_world f) n = None"
  "save_dialog (save_world f) = f"
  "ffmpeg (save_world f) = ProcExit 0 True"
  "libs_available (save_world f)"
  "cam_raises (fail_world f) n = None"
  "save_dialog (fail_world f) = f"
  "ffmpeg (fail_world f) = ProcExit 1 False"
  by (simp_all add: quiet_world_def save_world_def fail_world_def)

lemma init_camera_quiet:
  "picam s \<Longrightarrow> cam_raises w = (\<lambda>n. None) \<Longrightarrow> libs_available w \<Longrightarrow>
   snd (init_camera w s) =
     s\<lparr>cam_calls := cam_calls s @ [Stop, Close, Picamera2,
          ConfigurePreview (current_preview_resolution s), Start,
          SetControls (AfMode AfContinuous)],
       picam := True,
       status_bar := status_bar s @ [''Camera initialized with preview stream at ''
            @ str_int (fst (current_preview_resolution s)) @ ''x''
            @ str_int (snd (current_preview_resolution s))]\<rparr>"
  by (simp add: init_camera_def cam_def stmt_def showMessage_def state_of_def Let_def)

lemma thin_drag_state:
  "run_events (butlast thin_drag_events) quiet_gui =
     Done (quiet_gui\<lparr>drag_start := Some (QPoint 100 100), is_dragging := True,
             temp_drawn_rect := Some (QRectC 100 100 99 300), crop_apply_btn := False\<rparr>)"
  by (simp add: thin_drag_events_def preview_mouse_press_def preview_mouse_move_def
      quiet_gui_fields mouse_fields QRectPP_def normalized_def qpoint_bool_def width_def
      height_def Let_def)

lemma finalize_not_started_out:
  assumes "cam_raises w (length (cam_calls s)) = None" and "temp_video_path s = Some t"
    and "t \<in> files s" and "save_dialog w \<noteq> []" and "ffmpeg w = ProcNotFound"
  shows "stdout (finalize_recording w s)
           = stdout s @ [''Failed to stop or save recording: ''
                          @ exn_str (FileNotFoundError ''ffmpeg'')]"
    and "status_bar (finalize_recording w s)
           = status_bar s @ [''Recording stopped. Saving file...'',
                ''Converting to MP4, please wait...'',
                ''Error saving video: '' @ ''Failed to stop or save recording: ''
                          @ exn_str (FileNotFoundError ''ffmpeg'')]"
  using assms
  by (simp_all add: finalize_recording_def cam_def stmt_def showMessage_def print_def
      convert_and_remove_def read_temp_video_path_def subprocess_run_def os_remove_def Let_def
      del: exn_str.simps)

lemma not_named:
  "\<not> sublist ''/tmp/temp_video.h264''
       (''Failed to stop or save recording: '' @ exn_str (FileNotFoundError ''ffmpeg''))"
  by (simp add: py_repr_def sublist_Cons_right)









lemma recording_gui_output:
  "stdout recording_gui = []"
  by (simp add: recording_gui_def start_recording_def quiet_gui_session quiet_gui_camera(4)
      cam_def stmt_def showMessage_def Let_def quiet_world_def)

lemma notfound_world_fields:
  "cam_raises (notfound_world f) n = None"
  "cam_raises (notfound_world f) = (\<lambda>n. None)"
  "save_dialog (notfound_world f) = f"
  "ffmpeg (notfound_world f) = ProcNotFound"
  "libs_available (notfound_world f)"
  by (simp_all add: notfound_world_def quiet_world_def)

lemma finalize_not_started_state:
  assumes "cam_raises w (length (cam_calls s)) = None" and "temp_video_path s = Some t"
    and "t \<in> files s" and "save_dialog w \<noteq> []" and "ffmpeg w = ProcNotFound"
  shows "finalize_recording w s =
     s\<lparr>cam_calls := cam_calls s @ [StopRecording],
       is_recording := False, start_record_btn := True, stop_record_btn := False,
       preview_label := LabelText ''Processing Video...'',
       status_bar := status_bar s @ [''Recording stopped. Saving file...'',
                ''Converting to MP4, please wait...'',
                ''Error saving video: '' @ ''Failed to stop or save recording: ''
                          @ exn_str (FileNotFoundError ''ffmpeg'')],
       stdout := stdout s @ [''Failed to stop or save recording: ''
                          @ exn_str (FileNotFoundError ''ffmpeg'')]\<rparr>"
  using assms
  by (simp add: finalize_recording_def cam_def stmt_def showMessage_def print_def
      convert_and_remove_def read_temp_video_path_def subprocess_run_def os_remove_def Let_def
      del: exn_str.simps)

section \<open>Properties of the program\<close>

subsection \<open>Rotation and crop in the preview (C1)\<close>

text \<open>
  Claim C1 does not hold of the program. With an applied crop, \<^verbatim>\<open>update_preview\<close> slices
  \<^verbatim>\<open>self.current_frame\<close>, the copy taken before the rotation, and not the rotated \<^verbatim>\<open>img\<close>:
  the array that is scaled and shown is the crop of the frame as captured, the same for
  every rotation state.
\<close>

theorem crop_discards_rotation:
  assumes "applied_crop_rect s = Some c" and "qrect_bool c"
  shows "transformed_frame s img0
           = slice_frame img0 (sensor_bounds c (current_preview_resolution s))
    \<and> transformed_frame (s\<lparr>rotation := r\<rparr>) img0 = transformed_frame s img0"
  using assms by (simp add: transformed_frame_def Let_def)

text \<open>
  A 2 \<times> 2 frame, rotation 180 and a crop covering the frame: the program shows the frame
  as captured, while rotating first and cropping then gives the frame turned around.
\<close>

theorem crop_discards_rotation_witness:
  "applied_crop_rect (quiet_gui\<lparr>rotation := 180, applied_crop_rect := Some (QRect 0 0 400 300)\<rparr>)
     = Some (QRect 0 0 400 300)
   \<and> qrect_bool (QRect 0 0 400 300)
   \<and> transformed_frame
        (quiet_gui\<lparr>rotation := 180, applied_crop_rect := Some (QRect 0 0 400 300)\<rparr>) small_rgb
      = [[[1, 1, 1], [2, 2, 2]], [[3, 3, 3], [4, 4, 4]]]
   \<and> spec_rotate_then_crop
        (quiet_gui\<lparr>rotation := 180, applied_crop_rect := Some (QRect 0 0 400 300)\<rparr>) small_rgb
      = [[[4, 4, 4], [3, 3, 3]], [[2, 2, 2], [1, 1, 1]]]"
proof -
  let ?s = "quiet_gui\<lparr>rotation := 180, applied_crop_rect := Some (QRect 0 0 400 300)\<rparr>"
  have h1: "applied_crop_rect ?s = Some (QRect 0 0 400 300)" by simp
  have h2: "qrect_bool (QRect 0 0 400 300)" by (simp add: qrect_bool_def isValid_def QRect_def)
  have b: "sensor_bounds (QRect 0 0 400 300) (1280, 720) = (0, 0, 638, 358)"
    by (simp add: sensor_bounds_def QRect_def left_def top_def right_def bottom_def
        label_w_def label_h_def py_int_def Let_def)
  have sp: "spec_rotate_then_crop ?s small_rgb = [[[4, 4, 4], [3, 3, 3]], [[2, 2, 2], [1, 1, 1]]]"
    by (simp add: spec_rotate_then_crop_def h2 quiet_gui_camera b rot90_def small_rgb_def
        slice_frame_def py_slice_def Let_def)
  from crop_discards_rotation [OF h1 h2, of small_rgb 0] h1 h2 sp
  show ?thesis
    by (simp add: quiet_gui_camera b small_rgb_def slice_frame_def py_slice_def)
qed

subsection \<open>Still capture while recording (C2)\<close>

text \<open>
  Claim C2 does not hold of the program: \<^verbatim>\<open>capture_image\<close> does not look at
  \<^verbatim>\<open>is_recording\<close>. Called while recording, it stops the camera, configures it for a still,
  captures, moves the file to the chosen path, and closes and reopens the camera for
  the preview; \<^verbatim>\<open>is_recording\<close> stays set.
\<close>

theorem capture_during_recording_reconfigures_camera:
  "is_recording recording_gui
   \<and> cam_calls (state_of (capture_image (save_world ''/home/pi/capture.jpeg'') recording_gui))
       = cam_calls recording_gui
         @ [Stop, ConfigureStill (4608, 3456), Start,
            CaptureFile ''/tmp/temp_capture.jpeg'' ''jpeg'',
            Stop, Close, Picamera2, ConfigurePreview (1280, 720), Start,
            SetControls (AfMode AfContinuous)]
   \<and> ''/home/pi/capture.jpeg''
       \<in> files (state_of (capture_image (save_world ''/home/pi/capture.jpeg'') recording_gui))
   \<and> is_recording (state_of (capture_image (save_world ''/home/pi/capture.jpeg'') recording_gui))"
proof -
  have w: "cam_raises (save_world ''/home/pi/capture.jpeg'') = (\<lambda>n. None)"
    by (simp add: save_world_def quiet_world_def)
  show ?thesis
    by (simp add: capture_image_def recording_gui_fields world_fields cam_def stmt_def
        capture_file_def os_rename_def showMessage_def state_of_def Let_def
        init_camera_quiet [OF _ w] start_preview_def)
qed

subsection \<open>Manual lens position (C3)\<close>

text \<open>
  Claim C3, as stated, fails: at the slider value 1000 the pushed lens position is 10,
  which is neither 1000 / 1000 nor at most 1.
\<close>

theorem lens_position_normalized_counterexample:
  "picam quiet_gui \<and> libs_available quiet_world
   \<and> cam_calls (set_lens_position quiet_world 1000 quiet_gui)
       = cam_calls quiet_gui @ [SetControls (LensPosition 10)]
   \<and> (10::real) \<noteq> 1000 / 1000 \<and> \<not> (10::real) \<le> 1"
  by (simp add: set_lens_position_def cam_def Let_def quiet_gui_camera)
     (simp add: quiet_world_def)

text \<open>
  Claim C3, amended. With the camera open and the control library present, a slider value
  \<open>v\<close> between 0 and 1000 makes \<^verbatim>\<open>set_lens_position\<close> push the lens position \<open>v / 100\<close>
  to the device, a value between 0 and 10: the slider range 0 to 1000 is mapped onto the
  interval from 0.0 to 10.0. The call is made whether or not the driver then raises.
\<close>

theorem lens_position_is_slider_over_100:
  assumes "picam s" and "libs_available w" and "0 \<le> v" and "v \<le> 1000"
  shows "cam_calls (set_lens_position w v s)
           = cam_calls s @ [SetControls (LensPosition (real_of_int v / 100))]
    \<and> 0 \<le> real_of_int v / 100 \<and> real_of_int v / 100 \<le> 10"
  using assms
  by (simp add: set_lens_position_def cam_def print_def Let_def split: option.splits)

text \<open>
  The slider at 250 pushes the lens position 2.5.
\<close>

theorem lens_position_is_slider_over_100_witness:
  "picam quiet_gui \<and> libs_available quiet_world \<and> (0::int) \<le> 250 \<and> (250::int) \<le> 1000
   \<and> cam_calls (set_lens_position quiet_world 250 quiet_gui)
       = cam_calls quiet_gui @ [SetControls (LensPosition (5 / 2))]"
proof -
  have l: "libs_available quiet_world" by (simp add: quiet_world_def)
  from lens_position_is_slider_over_100 [OF quiet_gui_camera(1) l, of 250] l
  show ?thesis by (simp add: quiet_gui_camera)
qed

subsection \<open>Finalization of a recording (C4)\<close>

text \<open>
  Claim C4, as stated, fails where the conversion fails because the transcoder cannot be
  started: the temporary file is left in place, but the error that is printed and shown,
  the text of Python's \<^verbatim>\<open>FileNotFoundError\<close>, names \<^verbatim>\<open>ffmpeg\<close> and not the temporary file.
  No other line is printed, and no message of the status bar names the file.
\<close>

theorem unlaunched_transcoder_error_counterexample:
  "is_recording recording_gui
   \<and> temp_video_path recording_gui = Some ''/tmp/temp_video.h264''
   \<and> save_dialog (notfound_world ''/home/pi/video.mp4'') = ''/home/pi/video.mp4''
   \<and> ffmpeg (notfound_world ''/home/pi/video.mp4'') = ProcNotFound
   \<and> ''/tmp/temp_video.h264''
       \<in> files (stop_recording (notfound_world ''/home/pi/video.mp4'') recording_gui)
   \<and> stdout (stop_recording (notfound_world ''/home/pi/video.mp4'') recording_gui)
       = [''Failed to stop or save recording: '' @ exn_str (FileNotFoundError ''ffmpeg'')]
   \<and> status_bar (stop_recording (notfound_world ''/home/pi/video.mp4'') recording_gui)
       = status_bar recording_gui
         @ [''Recording stopped. Saving file...'',
            ''Converting to MP4, please wait...'',
            ''Error saving video: '' @ ''Failed to stop or save recording: ''
               @ exn_str (FileNotFoundError ''ffmpeg''),
            ''Camera initialized with preview stream at '' @ str_int 1280 @ ''x'' @ str_int 720]
   \<and> \<not> sublist ''/tmp/temp_video.h264''
         (''Failed to stop or save recording: '' @ exn_str (FileNotFoundError ''ffmpeg''))"
proof -
  let ?w = "notfound_world ''/home/pi/video.mp4''"
  let ?f = "finalize_recording ?w recording_gui"
  have t: "''/tmp/temp_video.h264'' \<in> files recording_gui"
    by (simp add: recording_gui_fields)
  have d: "save_dialog ?w \<noteq> []" by (simp add: notfound_world_fields)
  note fin = finalize_not_started [OF notfound_world_fields(1) recording_gui_fields(3) t d
               notfound_world_fields(4)]
    finalize_not_started_out [OF notfound_world_fields(1) recording_gui_fields(3) t d
               notfound_world_fields(4)]
  note st = finalize_not_started_state [OF notfound_world_fields(1) recording_gui_fields(3) t d
               notfound_world_fields(4)]
  have p: "picam ?f" by (simp add: st recording_gui_fields)
  have r: "current_preview_resolution ?f = (1280, 720)"
    by (simp add: st recording_gui_fields)
  have s: "stop_recording ?w recording_gui = start_preview (snd (init_camera ?w ?f))"
    by (simp add: stop_recording_def recording_gui_fields)
  have i: "snd (init_camera ?w ?f) =
     ?f\<lparr>cam_calls := cam_calls ?f @ [Stop, Close, Picamera2,
          ConfigurePreview (current_preview_resolution ?f), Start,
          SetControls (AfMode AfContinuous)],
       picam := True,
       status_bar := status_bar ?f @ [''Camera initialized with preview stream at ''
            @ str_int (fst (current_preview_resolution ?f)) @ ''x''
            @ str_int (snd (current_preview_resolution ?f))]\<rparr>"
    by (rule init_camera_quiet [OF p notfound_world_fields(2) notfound_world_fields(5)])
  show ?thesis
    using not_named t
    by (simp add: s i r fin start_preview_def recording_gui_fields recording_gui_output
        notfound_world_fields del: exn_str.simps str_nat.simps)
qed

text \<open>
  Claim C4, amended. \<^verbatim>\<open>stop_recording\<close> on a recording session whose temporary file \<open>t\<close>
  exists and whose encoder stops without an exception:
  \<^item> when the save dialog is cancelled, the temporary file is deleted, nothing else
    changes in the file system, no error is printed and the message of the outcome is
    ``Video not saved.'';
  \<^item> when a target other than \<open>t\<close> is chosen and the transcoder exits with status 0, the
    target exists, the temporary file is gone and no error is printed;
  \<^item> when the transcoder exits with another status, the temporary file is still there,
    and an error message that contains the path \<open>t\<close> has been printed and shown in the
    status bar;
  \<^item> when the transcoder cannot be started, the temporary file is still there, and the
    error of the failed start has been printed and shown in the status bar.
  \<^verbatim>\<open>os.remove\<close> follows the conversion in the program text, so the temporary file is
  removed only after a conversion that succeeded. In the status bar the messages are
  followed by the one of \<^verbatim>\<open>init_camera\<close>, which the \<^verbatim>\<open>finally\<close> block calls; the printed
  line stays.
\<close>

theorem recording_finalization_outcomes:
  assumes "is_recording s" and "temp_video_path s = Some t" and "t \<in> files s"
    and "cam_raises w (length (cam_calls s)) = None"
  shows "(save_dialog w = [] \<longrightarrow>
            files (stop_recording w s) = files s - {t}
          \<and> stdout (finalize_recording w s) = stdout s
          \<and> last (status_bar (finalize_recording w s)) = ''Video not saved.'')
    \<and> (save_dialog w \<noteq> [] \<and> save_dialog w \<noteq> t
         \<and> (ffmpeg w = ProcExit 0 True \<or> ffmpeg w = ProcExit 0 False) \<longrightarrow>
            t \<notin> files (stop_recording w s)
          \<and> save_dialog w \<in> files (stop_recording w s)
          \<and> stdout (finalize_recording w s) = stdout s)
    \<and> (save_dialog w \<noteq> [] \<and> ffmpeg w = ProcExit rc b \<and> rc \<noteq> 0 \<longrightarrow>
            t \<in> files (stop_recording w s)
          \<and> (\<exists>m. sublist t m \<and> m \<in> set (stdout (stop_recording w s))
                \<and> (''Error saving video: '' @ m) \<in> set (status_bar (stop_recording w s))))
    \<and> (save_dialog w \<noteq> [] \<and> ffmpeg w = ProcNotFound \<longrightarrow>
            t \<in> files (stop_recording w s)
          \<and> (''Failed to stop or save recording: '' @ exn_str (FileNotFoundError ''ffmpeg''))
               \<in> set (stdout (stop_recording w s))
          \<and> (''Error saving video: '' @ ''Failed to stop or save recording: ''
                 @ exn_str (FileNotFoundError ''ffmpeg''))
               \<in> set (status_bar (stop_recording w s)))"
proof (intro conjI impI)
  assume d: "save_dialog w = []"
  show "files (stop_recording w s) = files s - {t}"
    by (simp add: stop_recording_files [OF assms(1)] finalize_declined [OF assms(4,2,3) d])
  show "stdout (finalize_recording w s) = stdout s"
    by (rule finalize_declined [OF assms(4,2,3) d])
  show "last (status_bar (finalize_recording w s)) = ''Video not saved.''"
    by (simp add: finalize_declined [OF assms(4,2,3) d])
next
  assume a: "save_dialog w \<noteq> [] \<and> save_dialog w \<noteq> t
         \<and> (ffmpeg w = ProcExit 0 True \<or> ffmpeg w = ProcExit 0 False)"
  then obtain b where b: "ffmpeg w = ProcExit 0 b" by blast
  from a have d: "save_dialog w \<noteq> []" and n: "save_dialog w \<noteq> t" by simp_all
  have f: "files (stop_recording w s) = insert (save_dialog w) (files s) - {t}"
    by (simp add: stop_recording_files [OF assms(1)] finalize_converted [OF assms(4,2,3) d b])
  show "t \<notin> files (stop_recording w s)" by (simp add: f)
  show "save_dialog w \<in> files (stop_recording w s)" using n by (simp add: f)
  show "stdout (finalize_recording w s) = stdout s"
    by (rule finalize_converted [OF assms(4,2,3) d b])
next
  assume a: "save_dialog w \<noteq> [] \<and> ffmpeg w = ProcExit rc b \<and> rc \<noteq> 0"
  then have d: "save_dialog w \<noteq> []" and e: "ffmpeg w = ProcExit rc b" and z: "rc \<noteq> 0"
    by simp_all
  define msg where "msg = ''Failed to stop or save recording: ''
                 @ exn_str (CalledProcessError (ffmpeg_cmd t (save_dialog w)) rc)"
  note fin = finalize_failed [OF assms(4,2,3) d e z msg_def]
  show "t \<in> files (stop_recording w s)"
    using assms(3) by (simp add: stop_recording_files [OF assms(1)] fin)
  have "sublist t (exn_str (CalledProcessError (ffmpeg_cmd t (save_dialog w)) rc))"
    by (rule called_process_error_names_input)
  then have 1: "sublist t msg"
    unfolding msg_def by (rule sublist_after_prefix)
  have 2: "msg \<in> set (stdout (stop_recording w s))"
    using stop_recording_stdout [OF assms(1), of w] by (auto simp: fin)
  have 3: "(''Error saving video: '' @ msg) \<in> set (status_bar (stop_recording w s))"
    using stop_recording_status [OF assms(1), of w] by (auto simp: fin)
  from 1 2 3
  show "\<exists>m. sublist t m \<and> m \<in> set (stdout (stop_recording w s))
                \<and> (''Error saving video: '' @ m) \<in> set (status_bar (stop_recording w s))"
    by blast
next
  assume a: "save_dialog w \<noteq> [] \<and> ffmpeg w = ProcNotFound"
  then have d: "save_dialog w \<noteq> []" and e: "ffmpeg w = ProcNotFound" by simp_all
  note out = finalize_not_started_out [OF assms(4,2,3) d e]
  show "t \<in> files (stop_recording w s)"
    using assms(3)
    by (simp add: stop_recording_files [OF assms(1)] finalize_not_started [OF assms(4,2,3) d e])
  show "(''Failed to stop or save recording: '' @ exn_str (FileNotFoundError ''ffmpeg''))
          \<in> set (stdout (stop_recording w s))"
    using stop_recording_stdout [OF assms(1), of w] by (auto simp: out simp del: exn_str.simps)
  show "(''Error saving video: '' @ ''Failed to stop or save recording: ''
            @ exn_str (FileNotFoundError ''ffmpeg''))
          \<in> set (status_bar (stop_recording w s))"
    using stop_recording_status [OF assms(1), of w] by (auto simp: out simp del: exn_str.simps)
qed

text \<open>
  The three outcomes for the recording started in the quiet world: the dialog cancelled,
  the video saved to \<^verbatim>\<open>/home/pi/video.mp4\<close>, and the transcoder exiting with status 1.
\<close>

theorem recording_finalization_outcomes_witness:
  "is_recording recording_gui
   \<and> temp_video_path recording_gui = Some ''/tmp/temp_video.h264''
   \<and> ''/tmp/temp_video.h264'' \<in> files recording_gui
   \<and> cam_raises quiet_world (length (cam_calls recording_gui)) = None
   \<and> save_dialog quiet_world = []
   \<and> files (stop_recording quiet_world recording_gui) = {}
   \<and> save_dialog (save_world ''/home/pi/video.mp4'') = ''/home/pi/video.mp4''
   \<and> ffmpeg (save_world ''/home/pi/video.mp4'') = ProcExit 0 True
   \<and> ''/tmp/temp_video.h264'' \<notin> files (stop_recording (save_world ''/home/pi/video.mp4'') recording_gui)
   \<and> ''/home/pi/video.mp4'' \<in> files (stop_recording (save_world ''/home/pi/video.mp4'') recording_gui)
   \<and> ffmpeg (fail_world ''/home/pi/video.mp4'') = ProcExit 1 False
   \<and> ''/tmp/temp_video.h264'' \<in> files (stop_recording (fail_world ''/home/pi/video.mp4'') recording_gui)
   \<and> (\<exists>m. sublist ''/tmp/temp_video.h264'' m
          \<and> m \<in> set (stdout (stop_recording (fail_world ''/home/pi/video.mp4'') recording_gui))
          \<and> (''Error saving video: '' @ m)
               \<in> set (status_bar (stop_recording (fail_world ''/home/pi/video.mp4'') recording_gui)))
   \<and> ffmpeg (notfound_world ''/home/pi/video.mp4'') = ProcNotFound
   \<and> ''/tmp/temp_video.h264''
       \<in> files (stop_recording (notfound_world ''/home/pi/video.mp4'') recording_gui)"
proof -
  have t: "''/tmp/temp_video.h264'' \<in> files recording_gui"
    by (simp add: recording_gui_fields)
  note r = recording_gui_fields(2) recording_gui_fields(3) t
  from recording_finalization_outcomes [OF r world_fields(1), of 0 True]
  have a: "files (stop_recording quiet_world recording_gui) = {}"
    by (simp add: world_fields recording_gui_fields)
  from recording_finalization_outcomes
         [OF r world_fields(3), of "''/home/pi/video.mp4''" 0 True]
  have b: "''/tmp/temp_video.h264'' \<notin> files (stop_recording (save_world ''/home/pi/video.mp4'') recording_gui)
     \<and> ''/home/pi/video.mp4'' \<in> files (stop_recording (save_world ''/home/pi/video.mp4'') recording_gui)"
    by (simp add: world_fields)
  from recording_finalization_outcomes
         [OF r world_fields(7), of "''/home/pi/video.mp4''" 1 False]
  have c: "''/tmp/temp_video.h264'' \<in> files (stop_recording (fail_world ''/home/pi/video.mp4'') recording_gui)
   \<and> (\<exists>m. sublist ''/tmp/temp_video.h264'' m
          \<and> m \<in> set (stdout (stop_recording (fail_world ''/home/pi/video.mp4'') recording_gui))
          \<and> (''Error saving video: '' @ m)
               \<in> set (status_bar (stop_recording (fail_world ''/home/pi/video.mp4'') recording_gui)))"
    by (simp add: world_fields)
  from recording_finalization_outcomes
         [OF r notfound_world_fields(1), of "''/home/pi/video.mp4''" 0 True]
  have n: "''/tmp/temp_video.h264''
       \<in> files (stop_recording (notfound_world ''/home/pi/video.mp4'') recording_gui)"
    by (simp add: notfound_world_fields)
  from a b c n r show ?thesis
    by (simp add: world_fields notfound_world_fields)
qed

subsection \<open>The noise threshold of the crop (C5)\<close>

text \<open>
  Claim C5, as stated, fails in its clause on the release: a crop drag from (100, 100) to
  (99, 300) leaves a draft of width 0, which is below the threshold. PyQt5 takes such a
  rectangle for false, so the test of \<^verbatim>\<open>preview_mouse_release\<close> does not reach the
  comparison, and the draft is still stored after the release.
\<close>

theorem thin_draft_kept_on_release_counterexample:
  "is_dragging (state_of (run_events (butlast thin_drag_events) quiet_gui))
   \<and> temp_drawn_rect (state_of (run_events (butlast thin_drag_events) quiet_gui))
       = Some (QRectC 100 100 99 300)
   \<and> width (QRectC 100 100 99 300) = 0
   \<and> width (QRectC 100 100 99 300) < 10
   \<and> temp_drawn_rect (state_of (run_events thin_drag_events quiet_gui))
       = Some (QRectC 100 100 99 300)"
proof -
  have "run_events thin_drag_events quiet_gui =
     Done (quiet_gui\<lparr>drag_start := Some (QPoint 100 100), is_dragging := False,
             temp_drawn_rect := Some (QRectC 100 100 99 300), crop_apply_btn := False,
             is_mag_dragging := False\<rparr>)"
    by (simp add: thin_drag_events_def preview_mouse_press_def preview_mouse_move_def
      preview_mouse_release_def qrect_bool_def isValid_def
      quiet_gui_fields mouse_fields QRectPP_def normalized_def qpoint_bool_def width_def
      height_def Let_def)
  then show ?thesis
    by (simp add: thin_drag_state state_of_def width_def)
qed

text \<open>
  Claim C5, amended. Whatever pointer presses, moves and releases, clicks on Apply and
  Clear and magnifier toggles the window receives after its construction, no handler
  raises and the applied crop region is absent or at least 10 pixels wide and 10 pixels
  high: a draft below the noise threshold never becomes the applied crop. The Apply
  button is enabled only by a move that made the draft more than 10 pixels in both
  directions, and every other change of the draft disables it, so a click on Apply never
  promotes a smaller draft. On the release that ends a crop drag, a draft narrower or
  lower than 10 pixels is discarded when it is a valid rectangle, that is one of at least
  one pixel in each direction, which Python takes for true.
\<close>

theorem small_draft_never_applied:
  "(\<exists>s'. run_events evs (startup w fs) = Done s' \<and> meets_threshold (applied_crop_rect s'))
   \<and> (is_dragging s \<and> temp_drawn_rect s = Some r \<and> qrect_bool r \<and> (width r < 10 \<or> height r < 10)
        \<longrightarrow> temp_drawn_rect (preview_mouse_release e s) = None)"
proof
  from crop_inv_run [OF crop_inv_startup, of evs w fs]
  obtain s' where "run_events evs (startup w fs) = Done s'" "crop_inv s'" by blast
  then show "\<exists>s'. run_events evs (startup w fs) = Done s' \<and> meets_threshold (applied_crop_rect s')"
    by (auto simp: crop_inv_def intro: above_meets)
next
  show "is_dragging s \<and> temp_drawn_rect s = Some r \<and> qrect_bool r \<and> (width r < 10 \<or> height r < 10)
        \<longrightarrow> temp_drawn_rect (preview_mouse_release e s) = None"
    using release_discards_small [of s r e] by blast
qed

text \<open>
  The property at a concrete run: a drag of 5 by 201 pixels followed by a click on Apply,
  and the release of a one-pixel draft.
\<close>

theorem small_draft_never_applied_witness:
  "(\<exists>s'. run_events [Press (mouse 100 100 LeftButton), Move (mouse 104 300 NoButton),
                      Release (mouse 104 300 NoButton), ClickApply] (startup quiet_world {}) = Done s'
         \<and> meets_threshold (applied_crop_rect s'))
   \<and> is_dragging (preview_mouse_press (mouse 100 100 LeftButton) quiet_gui)
   \<and> temp_drawn_rect (preview_mouse_press (mouse 100 100 LeftButton) quiet_gui)
        = Some (QRectC 100 100 100 100)
   \<and> qrect_bool (QRectC 100 100 100 100)
   \<and> (width (QRectC 100 100 100 100) < 10 \<or> height (QRectC 100 100 100 100) < 10)
   \<and> temp_drawn_rect (preview_mouse_release (mouse 100 100 NoButton)
         (preview_mouse_press (mouse 100 100 LeftButton) quiet_gui)) = None"
  using small_draft_never_applied
    [of "[Press (mouse 100 100 LeftButton), Move (mouse 104 300 NoButton),
          Release (mouse 104 300 NoButton), ClickApply]" quiet_world "{}"
        "preview_mouse_press (mouse 100 100 LeftButton) quiet_gui" "QRectC 100 100 100 100"
        "mouse 100 100 NoButton"]
  by (simp add: press_quiet_fields qrect_bool_def isValid_def width_def height_def)

subsection \<open>Priority of the magnifier on a press (C6)\<close>

text \<open>
  Claim C6. A press inside the magnifier rectangle while the magnifier is shown starts a
  magnifier drag with the offset of the pointer from the rectangle's top-left corner. It
  leaves the draft rectangle, the crop drag flag, the drag anchor, the Apply button and
  the applied crop as they were, whichever button was pressed and whatever the crop
  draft state is.
\<close>

theorem press_inside_magnifier_starts_magnifier_drag:
  assumes "magnifier_toggle s" and "contains (mag_rect s) (pos e)"
  shows "is_mag_dragging (preview_mouse_press e s)
    \<and> drag_offset (preview_mouse_press e s) = Some (qpoint_sub (pos e) (topLeft (mag_rect s)))
    \<and> temp_drawn_rect (preview_mouse_press e s) = temp_drawn_rect s
    \<and> is_dragging (preview_mouse_press e s) = is_dragging s
    \<and> drag_start (preview_mouse_press e s) = drag_start s
    \<and> crop_apply_btn (preview_mouse_press e s) = crop_apply_btn s
    \<and> applied_crop_rect (preview_mouse_press e s) = applied_crop_rect s"
  using assms by (simp add: preview_mouse_press_def)

text \<open>
  A press at (330, 230) on the centred magnifier, whose top-left corner is (325, 225).
\<close>

theorem press_inside_magnifier_starts_magnifier_drag_witness:
  "magnifier_toggle (toggle_magnifier True quiet_gui)
   \<and> contains (mag_rect (toggle_magnifier True quiet_gui)) (pos (mouse 330 230 LeftButton))
   \<and> is_mag_dragging (preview_mouse_press (mouse 330 230 LeftButton) (toggle_magnifier True quiet_gui))
   \<and> drag_offset (preview_mouse_press (mouse 330 230 LeftButton) (toggle_magnifier True quiet_gui))
        = Some (QPoint 5 5)
   \<and> temp_drawn_rect (preview_mouse_press (mouse 330 230 LeftButton) (toggle_magnifier True quiet_gui))
        = None
   \<and> is_dragging (preview_mouse_press (mouse 330 230 LeftButton) (toggle_magnifier True quiet_gui))
        = False"
proof -
  have h1: "magnifier_toggle (toggle_magnifier True quiet_gui)"
    by (simp add: shown_fields)
  have h2: "contains (mag_rect (toggle_magnifier True quiet_gui)) (pos (mouse 330 230 LeftButton))"
    by (simp add: shown_fields contains_def mouse_def)
  from press_inside_magnifier_starts_magnifier_drag [OF h1 h2] h1 h2
  show ?thesis
    by (simp add: shown_fields qpoint_sub_def topLeft_def mouse_def)
qed

subsection \<open>Dragging the magnifier (C7)\<close>

text \<open>
  Claim C7, as stated, fails: the magnifier is shown, grabbed at (330, 230) and dragged to
  the corner (0, 0) of the preview. The rectangle then starts at (-5, -5), outside the
  display surface.
\<close>

theorem magnifier_drag_clamped_counterexample:
  "is_mag_dragging (state_of (run_events (butlast drag_events) quiet_gui))
   \<and> mag_rect (state_of (run_events drag_events quiet_gui)) = QRectC (- 5) (- 5) 144 144
   \<and> \<not> within_display (mag_rect (state_of (run_events drag_events quiet_gui)))"
  by (simp add: drag_events_state state_of_def within_display_def left_def)
     (simp add: drag_events_def preview_mouse_press_def shown_fields contains_def mouse_def)

text \<open>
  Claim C7, amended. During a magnifier drag a pointer move puts the top-left corner of
  the magnifier rectangle at the pointer position minus the recorded offset and keeps
  the rectangle's size. The position is not clamped to the display surface.
\<close>

theorem magnifier_drag_follows_pointer_unclamped:
  assumes "is_mag_dragging s" and "drag_offset s = Some off"
  shows "preview_mouse_move e s
           = Done (s\<lparr>mag_rect := moveTopLeft (mag_rect s) (qpoint_sub (pos e) off)\<rparr>)
    \<and> topLeft (moveTopLeft (mag_rect s) (qpoint_sub (pos e) off)) = qpoint_sub (pos e) off
    \<and> width (moveTopLeft (mag_rect s) (qpoint_sub (pos e) off)) = width (mag_rect s)
    \<and> height (moveTopLeft (mag_rect s) (qpoint_sub (pos e) off)) = height (mag_rect s)"
  using assms
  by (simp add: preview_mouse_move_def topLeft_def moveTopLeft_def width_def height_def)

text \<open>
  The grabbed magnifier dragged to (400, 300).
\<close>

theorem magnifier_drag_follows_pointer_unclamped_witness:
  "is_mag_dragging (preview_mouse_press (mouse 330 230 LeftButton) (toggle_magnifier True quiet_gui))
   \<and> drag_offset (preview_mouse_press (mouse 330 230 LeftButton) (toggle_magnifier True quiet_gui))
        = Some (QPoint 5 5)
   \<and> preview_mouse_move (mouse 400 300 NoButton)
        (preview_mouse_press (mouse 330 230 LeftButton) (toggle_magnifier True quiet_gui))
      = Done (preview_mouse_press (mouse 330 230 LeftButton) (toggle_magnifier True quiet_gui)
               \<lparr>mag_rect := QRectC 395 295 544 444\<rparr>)
   \<and> topLeft (QRectC 395 295 544 444) = QPoint 395 295
   \<and> width (QRectC 395 295 544 444) = 150
   \<and> height (QRectC 395 295 544 444) = 150"
  using magnifier_drag_follows_pointer_unclamped
    [OF pressed_fields(1) pressed_fields(2), of "mouse 400 300 NoButton"]
  by (simp add: pressed_fields moveTopLeft_def qpoint_sub_def mouse_fields topLeft_def width_def height_def)

subsection \<open>Sensor-space bounds of the crop (C8)\<close>

text \<open>
  Claim C8. For every display-space rectangle and every sensor resolution with
  non-negative width and height, each bound of the sensor-space rectangle that
  \<^verbatim>\<open>update_preview\<close> computes by scaling and clamping lies between 0 and the sensor
  dimension of its axis.
\<close>

theorem sensor_bounds_inside_sensor:
  assumes "0 \<le> sensor_w" and "0 \<le> sensor_h"
    and "sensor_bounds c (sensor_w, sensor_h) = (xa, ya, xb, yb)"
  shows "0 \<le> xa \<and> xa \<le> sensor_w \<and> 0 \<le> xb \<and> xb \<le> sensor_w
       \<and> 0 \<le> ya \<and> ya \<le> sensor_h \<and> 0 \<le> yb \<and> yb \<le> sensor_h"
  using assms by (auto simp: sensor_bounds_def Let_def)

text \<open>
  The crop rectangle (100, 100, 200, 150) at the resolution 1280 \<times> 720.
\<close>

theorem sensor_bounds_inside_sensor_witness:
  "(0::int) \<le> 1280 \<and> (0::int) \<le> 720
   \<and> sensor_bounds (QRect 100 100 200 150) (1280, 720) = (160, 120, 478, 298)
   \<and> (0::int) \<le> 160 \<and> (160::int) \<le> 1280 \<and> (0::int) \<le> 478 \<and> (478::int) \<le> 1280
   \<and> (0::int) \<le> 120 \<and> (120::int) \<le> 720 \<and> (0::int) \<le> 298 \<and> (298::int) \<le> 720"
proof -
  have b: "sensor_bounds (QRect 100 100 200 150) (1280, 720) = (160, 120, 478, 298)"
    by (simp add: sensor_bounds_def QRect_def left_def top_def right_def bottom_def
        label_w_def label_h_def py_int_def Let_def)
  from sensor_bounds_inside_sensor [OF _ _ b] b show ?thesis by simp
qed

subsection \<open>An empty crop region (C9)\<close>

text \<open>
  Claim C9. In a preview tick that gets a usable frame while the applied crop maps to an
  empty sensor-space region (no width or no height after clamping), the image made of the
  cropped array is the solid black image of the display size, 800 \<times> 600. The bitmap set
  on the preview label is that image with the overlays of the tick drawn on it, and it is
  the black image itself when there is no draft rectangle and the magnifier is hidden.
  The tick reaches \<^verbatim>\<open>setPixmap\<close> and writes no error line.
\<close>

theorem empty_crop_gives_black_frame:
  assumes "picam s"
    and "cam_raises w (length (cam_calls s)) = None"
    and "cam_frame w (length (cam_calls s)) = Some fr"
    and "array_size fr \<noteq> 0"
    and "normalize_frame fr = Some img0"
    and "applied_crop_rect s = Some c"
    and "qrect_bool c"
    and "sensor_bounds c (current_preview_resolution s) = (xa, ya, xb, yb)"
    and "xb \<le> xa \<or> yb \<le> ya"
  shows "scaled_image pil (transformed_frame s img0) = black_image (label_w, label_h)
    \<and> black_image (label_w, label_h) = replicate 600 (replicate 800 [0, 0, 0])
    \<and> preview_label (update_preview pil w s)
        = LabelPixmap (draw_overlays pil s (black_image (label_w, label_h)))
    \<and> stdout (update_preview pil w s) = stdout s
    \<and> (temp_drawn_rect s = None \<and> \<not> magnifier_toggle s \<longrightarrow>
         preview_label (update_preview pil w s) = LabelPixmap (black_image (label_w, label_h)))"
proof -
  have t: "transformed_frame s img0 = slice_frame img0 (xa, ya, xb, yb)"
    using assms(6,7,8) by (simp add: transformed_frame_def Let_def)
  have b: "scaled_image pil (transformed_frame s img0) = black_image (label_w, label_h)"
    by (simp add: scaled_image_def t slice_frame_empty [OF assms(9)])
  have u: "update_preview pil w s =
     (if magnifier_toggle s
      then update_magnifier pil (s\<lparr>cam_calls := cam_calls s @ [CaptureArray], current_frame := Some img0\<rparr>)
      else s\<lparr>cam_calls := cam_calls s @ [CaptureArray], current_frame := Some img0\<rparr>)
           \<lparr>preview_label :=
              LabelPixmap (draw_overlays pil s (black_image (label_w, label_h)))\<rparr>"
    using update_preview_tick [OF assms(1-5) refl, of pil] by (simp only: b)
  have p: "preview_label (update_preview pil w s)
        = LabelPixmap (draw_overlays pil s (black_image (label_w, label_h)))"
    by (simp add: u)
  have o: "stdout (update_preview pil w s) = stdout s"
    by (simp add: u update_magnifier_other)
  have n: "temp_drawn_rect s = None \<and> \<not> magnifier_toggle s \<longrightarrow>
         draw_overlays pil s (black_image (label_w, label_h)) = black_image (label_w, label_h)"
    by (simp add: draw_overlays_def)
  have k: "black_image (label_w, label_h) = replicate 600 (replicate 800 [0, 0, 0])"
    by (simp add: black_image_def label_w_def label_h_def)
  from b k p o n show ?thesis by simp
qed

text \<open>
  An applied crop to the right of the display surface at 1280 \<times> 720: both horizontal
  bounds clamp to 1280.
\<close>

theorem empty_crop_gives_black_frame_witness:
  "picam (quiet_gui\<lparr>applied_crop_rect := Some (QRectC 900 100 950 200)\<rparr>)
   \<and> array_size small_frame \<noteq> 0
   \<and> normalize_frame small_frame = Some small_rgb
   \<and> qrect_bool (QRectC 900 100 950 200)
   \<and> sensor_bounds (QRectC 900 100 950 200) (1280, 720) = (1280, 120, 1280, 240)
   \<and> preview_label (update_preview plain_imaging (frame_world small_frame)
        (quiet_gui\<lparr>applied_crop_rect := Some (QRectC 900 100 950 200)\<rparr>))
      = LabelPixmap (replicate 600 (replicate 800 [0, 0, 0]))
   \<and> stdout (update_preview plain_imaging (frame_world small_frame)
        (quiet_gui\<lparr>applied_crop_rect := Some (QRectC 900 100 950 200)\<rparr>)) = []"
proof -
  let ?s = "quiet_gui\<lparr>applied_crop_rect := Some (QRectC 900 100 950 200)\<rparr>"
  have h1: "picam ?s" by (simp add: quiet_gui_camera)
  have h6: "applied_crop_rect ?s = Some (QRectC 900 100 950 200)" by simp
  have h7: "qrect_bool (QRectC 900 100 950 200)" by (simp add: qrect_bool_def isValid_def)
  have h8: "sensor_bounds (QRectC 900 100 950 200) (current_preview_resolution ?s)
              = (1280, 120, 1280, 240)"
    by (simp add: quiet_gui_camera sensor_bounds_def left_def top_def right_def bottom_def
        label_w_def label_h_def py_int_def Let_def)
  have h9: "(1280::int) \<le> 1280 \<or> (240::int) \<le> 120" by simp
  from empty_crop_gives_black_frame
    [OF h1 frame_world_fields(1) frame_world_fields(2) small_frame_facts h6 h7 h8 h9,
     of plain_imaging]
    h1 h7 h8 small_frame_facts
  show ?thesis by (simp add: quiet_gui_camera quiet_gui_fields draw_overlays_def)
qed

subsection \<open>The source of the magnifier view (C10)\<close>




end
